theory Spec2Isabelle
  imports Main "HOL-Library.Word"
begin

section \<open>Protocol filtering relay (gateway/index.js, \<open>server.on('upgrade')\<close>)\<close>

text \<open>
  The relay installs one \<open>message\<close> listener on each of the two WebSocket connections of a
  session: \<open>clientWs\<close> (browser side) and \<open>targetWs\<close> (container side). The \<open>ws\<close>
  library hands a listener the payload of one message as raw data: a \<open>Buffer\<close> under the
  default binary type, an \<open>ArrayBuffer\<close> or an array of \<open>Buffer\<close> fragments under the other
  two. A connection has one of four ready states.
\<close>

datatype ready_state = CONNECTING | OPEN | CLOSING | CLOSED

datatype rawdata =
    Buffer "8 word list"
  | ArrayBuffer "8 word list"
  | BufferList "8 word list list"

text \<open>\<open>Buffer.isBuffer(data)\<close>.\<close>

fun isBuffer :: "rawdata \<Rightarrow> bool" where
  "isBuffer (Buffer bs) = True"
| "isBuffer (ArrayBuffer bs) = False"
| "isBuffer (BufferList fs) = False"

text \<open>
  \<open>data.length\<close>: the number of bytes of a \<open>Buffer\<close>, the number of fragments of an array;
  an \<open>ArrayBuffer\<close> has no \<open>length\<close> property, and \<open>undefined > 0\<close> is false, which the
  value 0 reproduces.
\<close>

fun data_length :: "rawdata \<Rightarrow> nat" where
  "data_length (Buffer bs) = length bs"
| "data_length (ArrayBuffer bs) = 0"
| "data_length (BufferList fs) = length fs"

text \<open>
  \<open>data[0]\<close> read as a message type: the leading byte of a nonempty \<open>Buffer\<close>. No other
  kind of payload yields a number there.
\<close>

fun byte0 :: "rawdata \<Rightarrow> 8 word option" where
  "byte0 (Buffer (b # bs)) = Some b"
| "byte0 (Buffer []) = None"
| "byte0 (ArrayBuffer bs) = None"
| "byte0 (BufferList fs) = None"

text \<open>
  The listener on \<open>clientWs\<close> (browser to container). Its result is the list of payloads
  it passes to \<open>targetWs.send\<close>: none when the message is a client cut text (type 6) or when
  \<open>targetWs.readyState\<close> is not \<open>OPEN\<close>, the payload itself otherwise.
\<close>

definition clientWs_on_message :: "ready_state \<Rightarrow> rawdata \<Rightarrow> rawdata list" where
  "clientWs_on_message targetReady data =
     (if isBuffer data \<and> 0 < data_length data \<and> byte0 data = Some 6 then []
      else if targetReady = OPEN then [data] else [])"

text \<open>
  The listener on \<open>targetWs\<close> (container to browser): the same with server cut text
  (type 3) and \<open>clientWs.readyState\<close>.
\<close>

definition targetWs_on_message :: "ready_state \<Rightarrow> rawdata \<Rightarrow> rawdata list" where
  "targetWs_on_message clientReady data =
     (if isBuffer data \<and> 0 < data_length data \<and> byte0 data = Some 3 then []
      else if clientReady = OPEN then [data] else [])"

section \<open>Durable records and the container runtime (gateway/db.js, dockerode)\<close>

text \<open>
  Instants are milliseconds since the epoch, as JavaScript \<open>Date\<close> values compare. A
  \<open>DATETIME\<close> column that a handler reads through \<open>v && new Date(v) < now\<close> is modelled by
  the instant it denotes: \<open>None\<close> stands for \<open>NULL\<close>, for the empty string and for text that
  is not a date, the three cases in which both comparisons of the handlers are false.
\<close>

type_synonym time = int

text \<open>
  \<open>docker.getContainer(x)\<close> makes a handle from a container name or from a container id
  without calling the runtime, and \<open>handle.id\<close> is \<open>x\<close> again; \<open>createContainer\<close> returns
  a handle holding the new id. A handle, and the \<open>container_id\<close> text the database stores
  from \<open>container.id\<close>, is therefore a name or an id.
\<close>

datatype cref = ByName string | ById nat

datatype es_status = Pending | Active | Completed

datatype container_status = Stopped | Created | Running

text \<open>
  The tables of the schema with the columns the modelled handlers read or write. Rows are
  kept in insertion order; a lookup by primary key or by a \<open>UNIQUE\<close> column takes the first
  match.
\<close>

record student =
  st_id :: nat

record course =
  co_id :: nat
  co_name :: string
  co_environment_image :: "string option"

record enrollment =
  e_id :: nat
  e_student_id :: nat
  e_course_id :: nat
  e_container_id :: "cref option"
  e_container_status :: container_status
  e_access_token :: string

record assignment =
  a_id :: nat
  a_course_id :: nat
  a_title :: string
  a_folder_name :: string
  a_is_exam :: bool
  a_start_time :: "time option"
  a_end_time :: "time option"
  a_created_at :: time

record exam_session =
  es_id :: nat
  es_assignment_id :: nat
  es_student_id :: nat
  es_container_id :: "cref option"
  es_work_volume_path :: "string list option"
  es_status :: es_status
  es_started_at :: "time option"
  es_ended_at :: "time option"

text \<open>A container of the runtime, and an entry of the in-memory \<open>sessions\<close> map.\<close>

record container =
  c_id :: nat
  c_name :: string
  c_image :: string
  c_running :: bool

record session_entry =
  se_containerId :: cref
  se_enrollmentId :: "nat option"
  se_examSessionId :: "nat option"
  se_imageId :: "string option"
  se_imageName :: string
  se_isExam :: bool
  se_created :: time

text \<open>
  The calls a handler issues to the runtime, its writes to the database and to the
  \<open>sessions\<close> map, and its file-system writes, in the order in which it issues them.
\<close>

datatype event =
    DockerInspect cref
  | DockerCreate string
  | DockerStart cref
  | DockerStop cref
  | DockerRemove cref
  | DbUpdateEnrollmentContainer nat cref container_status
  | DbCreateExamSession nat
  | DbUpdateExamSessionContainer nat cref
  | DbEndExamSession nat
  | SessionsSet string
  | SessionsDelete string
  | FsEnsureDir "string list"
  | FsWriteFile "string list"

text \<open>
  The state the gateway works on: the database, the containers of the runtime with its
  next fresh id, the \<open>sessions\<close> map, and the trace of effects so far.
\<close>

record state =
  students :: "student list"
  courses :: "course list"
  enrollments :: "enrollment list"
  assignments :: "assignment list"
  exam_sessions :: "exam_session list"
  exam_sessions_seq :: nat
  containers :: "container list"
  next_container_id :: nat
  sessions :: "string \<rightharpoonup> session_entry"
  trace :: "event list"

definition emit :: "event \<Rightarrow> state \<Rightarrow> state" where
  "emit ev st = st\<lparr>trace := trace st @ [ev]\<rparr>"

text \<open>Decimal rendering of a number, as string concatenation and \<open>String(n)\<close> produce.\<close>

definition digit_char :: "nat \<Rightarrow> char" where
  "digit_char d = ''0123456789'' ! d"

fun show_nat :: "nat \<Rightarrow> string" where
  "show_nat n = (if n < 10 then [digit_char n] else show_nat (n div 10) @ [digit_char (n mod 10)])"

declare show_nat.simps [simp del]

subsection \<open>Queries and statements of db.js\<close>

text \<open>
  \<open>getEnrollmentByToken\<close>: the enrollment joined with its course and its student; no row
  when any of the three is missing.
\<close>

record enrollment_row =
  er_id :: nat
  er_student_id :: nat
  er_course_id :: nat
  er_course_name :: string
  er_environment_image :: "string option"

definition getEnrollmentByToken :: "string \<Rightarrow> state \<Rightarrow> enrollment_row option" where
  "getEnrollmentByToken token st =
     (case find (\<lambda>e. e_access_token e = token) (enrollments st) of
        None \<Rightarrow> None
      | Some e \<Rightarrow>
          (case find (\<lambda>c. co_id c = e_course_id e) (courses st) of
             None \<Rightarrow> None
           | Some c \<Rightarrow>
               (case find (\<lambda>s. st_id s = e_student_id e) (students st) of
                  None \<Rightarrow> None
                | Some s \<Rightarrow>
                    Some \<lparr>er_id = e_id e, er_student_id = e_student_id e,
                          er_course_id = e_course_id e, er_course_name = co_name c,
                          er_environment_image = co_environment_image c\<rparr>)))"


text \<open>\<open>getExamAssignment\<close>: an assignment flagged as an exam, joined with its course.\<close>

record exam_row =
  xr_course_id :: nat
  xr_title :: string
  xr_folder_name :: string
  xr_start_time :: "time option"
  xr_end_time :: "time option"
  xr_course_name :: string
  xr_environment_image :: "string option"

definition getExamAssignment :: "nat \<Rightarrow> state \<Rightarrow> exam_row option" where
  "getExamAssignment aid st =
     (case find (\<lambda>a. a_id a = aid \<and> a_is_exam a) (assignments st) of
        None \<Rightarrow> None
      | Some a \<Rightarrow>
          (case find (\<lambda>c. co_id c = a_course_id a) (courses st) of
             None \<Rightarrow> None
           | Some c \<Rightarrow>
               Some \<lparr>xr_course_id = a_course_id a, xr_title = a_title a,
                     xr_folder_name = a_folder_name a, xr_start_time = a_start_time a,
                     xr_end_time = a_end_time a, xr_course_name = co_name c,
                     xr_environment_image = co_environment_image c\<rparr>))"

text \<open>
  \<open>getAssignmentsByCourse\<close>: the assignments of a course, \<open>ORDER BY a.created_at DESC\<close>;
  rows created at the same instant stay in table order.
\<close>

definition getAssignmentsByCourse :: "nat \<Rightarrow> state \<Rightarrow> assignment list" where
  "getAssignmentsByCourse cid st =
     sort_key (\<lambda>a. - a_created_at a) (filter (\<lambda>a. a_course_id a = cid) (assignments st))"

definition updateEnrollmentContainer ::
  "nat \<Rightarrow> cref \<Rightarrow> container_status \<Rightarrow> state \<Rightarrow> state" where
  "updateEnrollmentContainer eid cid status st =
     emit (DbUpdateEnrollmentContainer eid cid status)
       (st\<lparr>enrollments :=
             map (\<lambda>e. if e_id e = eid
                       then e\<lparr>e_container_id := Some cid, e_container_status := status\<rparr>
                       else e)
                 (enrollments st)\<rparr>)"

definition getExamSession :: "nat \<Rightarrow> state \<Rightarrow> exam_session option" where
  "getExamSession sid st = find (\<lambda>s. es_id s = sid) (exam_sessions st)"

definition getExamSessionByStudentAndAssignment ::
  "nat \<Rightarrow> nat \<Rightarrow> state \<Rightarrow> exam_session option" where
  "getExamSessionByStudentAndAssignment studentId assignmentId st =
     find (\<lambda>s. es_student_id s = studentId \<and> es_assignment_id s = assignmentId)
          (exam_sessions st)"

text \<open>
  \<open>getActiveExamSessions\<close>: the exam sessions with status \<open>active\<close>, each joined with its
  assignment (whose \<open>end_time\<close> the row carries) and its student.
\<close>

definition active_row :: "state \<Rightarrow> exam_session \<Rightarrow> (exam_session \<times> time option) option" where
  "active_row st s =
     (case find (\<lambda>a. a_id a = es_assignment_id s) (assignments st) of
        None \<Rightarrow> None
      | Some a \<Rightarrow>
          (case find (\<lambda>u. st_id u = es_student_id s) (students st) of
             None \<Rightarrow> None
           | Some u \<Rightarrow> if es_status s = Active then Some (s, a_end_time a) else None))"

definition getActiveExamSessions :: "state \<Rightarrow> (exam_session \<times> time option) list" where
  "getActiveExamSessions st = List.map_filter (active_row st) (exam_sessions st)"

text \<open>
  \<open>createExamSession\<close> inserts a row with status \<open>active\<close> and returns its rowid. The key
  is \<open>AUTOINCREMENT\<close>: one more than the largest rowid that ever existed. The handler
  calls it for an assignment and a student it has just read, so the foreign keys of the
  new row hold.
\<close>

definition createExamSession ::
  "nat \<Rightarrow> nat \<Rightarrow> string list \<Rightarrow> time \<Rightarrow> state \<Rightarrow> nat \<times> state" where
  "createExamSession assignmentId studentId workVolumePath now st =
     (let rowid = Suc (fold max (map es_id (exam_sessions st)) (exam_sessions_seq st))
      in (rowid,
          emit (DbCreateExamSession rowid)
            (st\<lparr>exam_sessions := exam_sessions st @
                   [\<lparr>es_id = rowid, es_assignment_id = assignmentId,
                     es_student_id = studentId, es_container_id = None,
                     es_work_volume_path = Some workVolumePath, es_status = Active,
                     es_started_at = Some now, es_ended_at = None\<rparr>],
                 exam_sessions_seq := rowid\<rparr>)))"

definition updateExamSessionContainer :: "nat \<Rightarrow> cref \<Rightarrow> state \<Rightarrow> state" where
  "updateExamSessionContainer sid cid st =
     emit (DbUpdateExamSessionContainer sid cid)
       (st\<lparr>exam_sessions :=
             map (\<lambda>s. if es_id s = sid then s\<lparr>es_container_id := Some cid\<rparr> else s)
                 (exam_sessions st)\<rparr>)"

definition endExamSession :: "nat \<Rightarrow> time \<Rightarrow> state \<Rightarrow> state" where
  "endExamSession sid now st =
     emit (DbEndExamSession sid)
       (st\<lparr>exam_sessions :=
             map (\<lambda>s. if es_id s = sid
                       then s\<lparr>es_status := Completed, es_ended_at := Some now\<rparr>
                       else s)
                 (exam_sessions st)\<rparr>)"

subsection \<open>The container runtime\<close>

text \<open>
  The runtime as the gateway observes it through dockerode, taken to be available and
  deterministic: a call fails only for the state of the container it names. Every call is
  recorded in the trace whether it succeeds or not. A call that dockerode rejects (a result of \<open>None\<close> or
  \<open>False\<close> here) throws in the handler: \<open>inspect\<close> on a missing container (404),
  \<open>createContainer\<close> with a name in use (409), \<open>start\<close> on a missing or already started
  container (404, 304), \<open>stop\<close> on a missing or already stopped one (404, 304),
  \<open>remove\<close> on a missing or running one (404, 409).
\<close>

definition refers :: "cref \<Rightarrow> container \<Rightarrow> bool" where
  "refers r c = (case r of ByName n \<Rightarrow> c_name c = n | ById i \<Rightarrow> c_id c = i)"

definition resolve :: "cref \<Rightarrow> state \<Rightarrow> container option" where
  "resolve r st = find (refers r) (containers st)"

definition docker_inspect :: "cref \<Rightarrow> state \<Rightarrow> bool option \<times> state" where
  "docker_inspect r st = (map_option c_running (resolve r st), emit (DockerInspect r) st)"

definition docker_createContainer :: "string \<Rightarrow> string \<Rightarrow> state \<Rightarrow> cref option \<times> state" where
  "docker_createContainer name img st =
     (let st1 = emit (DockerCreate name) st
      in if name \<in> set (map c_name (containers st)) then (None, st1)
         else (Some (ById (next_container_id st)),
               st1\<lparr>containers := containers st @
                      [\<lparr>c_id = next_container_id st, c_name = name, c_image = img,
                        c_running = False\<rparr>],
                    next_container_id := Suc (next_container_id st)\<rparr>))"

definition docker_start :: "cref \<Rightarrow> state \<Rightarrow> bool \<times> state" where
  "docker_start r st =
     (let st1 = emit (DockerStart r) st
      in case resolve r st of
           None \<Rightarrow> (False, st1)
         | Some c \<Rightarrow>
             if c_running c then (False, st1)
             else (True,
                   st1\<lparr>containers :=
                         map (\<lambda>x. if c_id x = c_id c then x\<lparr>c_running := True\<rparr> else x)
                             (containers st)\<rparr>))"

definition docker_stop :: "cref \<Rightarrow> state \<Rightarrow> bool \<times> state" where
  "docker_stop r st =
     (let st1 = emit (DockerStop r) st
      in case resolve r st of
           None \<Rightarrow> (False, st1)
         | Some c \<Rightarrow>
             if \<not> c_running c then (False, st1)
             else (True,
                   st1\<lparr>containers :=
                         map (\<lambda>x. if c_id x = c_id c then x\<lparr>c_running := False\<rparr> else x)
                             (containers st)\<rparr>))"

definition docker_remove :: "cref \<Rightarrow> state \<Rightarrow> bool \<times> state" where
  "docker_remove r st =
     (let st1 = emit (DockerRemove r) st
      in case resolve r st of
           None \<Rightarrow> (False, st1)
         | Some c \<Rightarrow>
             if c_running c then (False, st1)
             else (True,
                   st1\<lparr>containers := filter (\<lambda>x. c_id x \<noteq> c_id c) (containers st)\<rparr>))"

subsection \<open>The sessions map and the file system\<close>

text \<open>
  Paths are lists of segments below the data directory. File contents are not modelled:
  a write is recorded by its path.
\<close>

definition sessions_set :: "string \<Rightarrow> session_entry \<Rightarrow> state \<Rightarrow> state" where
  "sessions_set k v st = emit (SessionsSet k) (st\<lparr>sessions := (sessions st)(k \<mapsto> v)\<rparr>)"

definition sessions_delete :: "string \<Rightarrow> state \<Rightarrow> state" where
  "sessions_delete k st = emit (SessionsDelete k) (st\<lparr>sessions := (sessions st)(k := None)\<rparr>)"

definition ensureDir :: "string list \<Rightarrow> state \<Rightarrow> state" where
  "ensureDir dirPath st = emit (FsEnsureDir dirPath) st"

definition writeFileSync :: "string list \<Rightarrow> state \<Rightarrow> state" where
  "writeFileSync filePath st = emit (FsWriteFile filePath) st"

definition syncAssignmentsToWorkspace :: "nat \<Rightarrow> string list \<Rightarrow> state \<Rightarrow> state" where
  "syncAssignmentsToWorkspace courseId workspacePath st =
     (let assignmentsDir = workspacePath @ [''assignments'']
      in fold (\<lambda>a s. writeFileSync (assignmentsDir @ [a_folder_name a, ''README.md''])
                       (ensureDir (assignmentsDir @ [a_folder_name a]) s))
              (getAssignmentsByCourse courseId st)
              (ensureDir assignmentsDir st))"

definition image_or_default :: "string option \<Rightarrow> string" where
  "image_or_default v =
     (case v of
        None \<Rightarrow> ''exam-desktop-vscode-python''
      | Some s \<Rightarrow> if s = [] then ''exam-desktop-vscode-python'' else s)"

section \<open>Access resolver (gateway/index.js)\<close>

text \<open>
  The responses of the modelled handlers: 404 \<open>Invalid or expired access link\<close>, 404
  \<open>Exam not found\<close>, 403 \<open>not enrolled\<close>, 403 \<open>not started\<close> with the scheduled start, 403
  \<open>ended\<close>, 403 \<open>already completed\<close>, the redirects to the student and exam portals with
  the session key, the 500 of a handler's catch-all, and the JSON answers of the two
  operator endpoints.
\<close>

datatype response =
    InvalidLink
  | ExamNotFound
  | NotEnrolled
  | NotStarted time
  | Ended
  | AlreadyCompleted
  | RedirectStudent string string
  | RedirectExam string string "time option"
  | ServerError
  | SessionNotFound
  | Success
  | Checked nat nat

subsection \<open>Regular access: \<open>app.get('/access/:token')\<close>\<close>

text \<open>
  The handler awaits the runtime at \<open>inspect\<close>, \<open>createContainer\<close> and \<open>start\<close>. It is
  split at the first await: \<open>access\<close> looks the enrollment up and inspects the container,
  and \<open>access_resume\<close> is the rest of the handler, given what \<open>inspect\<close> answered
  (\<open>None\<close> when it threw, otherwise whether the container runs). The creation options
  other than name and image (environment, network mode, capability, DNS, bind mount) are
  not modelled.
\<close>

definition getContainerName :: "enrollment_row \<Rightarrow> string" where
  "getContainerName enrollment =
     ''lms-'' @ show_nat (er_course_id enrollment) @ ''-'' @ show_nat (er_student_id enrollment)"

definition workspace_of :: "enrollment_row \<Rightarrow> string list" where
  "workspace_of enrollment =
     [''courses'', show_nat (er_course_id enrollment), show_nat (er_student_id enrollment)]"

definition access_create :: "enrollment_row \<Rightarrow> state \<Rightarrow> cref option \<times> state" where
  "access_create enrollment st =
     (case docker_createContainer (getContainerName enrollment)
             (image_or_default (er_environment_image enrollment))
             (ensureDir (workspace_of enrollment) st) of
        (None, st1) \<Rightarrow> (None, st1)
      | (Some container, st1) \<Rightarrow>
          (Some container, updateEnrollmentContainer (er_id enrollment) container Created st1))"

definition access_start :: "enrollment_row \<Rightarrow> cref \<Rightarrow> state \<Rightarrow> bool \<times> state" where
  "access_start enrollment container st =
     (case docker_start container
             (syncAssignmentsToWorkspace (er_course_id enrollment) (workspace_of enrollment)
                (ensureDir (workspace_of enrollment) st)) of
        (False, st1) \<Rightarrow> (False, st1)
      | (True, st1) \<Rightarrow>
          (True, updateEnrollmentContainer (er_id enrollment) container Running st1))"

definition access_resume ::
  "time \<Rightarrow> enrollment_row \<Rightarrow> bool option \<Rightarrow> state \<Rightarrow> response \<times> state" where
  "access_resume now enrollment info st =
     (case (case info of
              Some running \<Rightarrow> (Some (ByName (getContainerName enrollment), \<not> running), st)
            | None \<Rightarrow>
                (case access_create enrollment st of
                   (None, st1) \<Rightarrow> (None, st1)
                 | (Some container, st1) \<Rightarrow> (Some (container, True), st1))) of
        (None, st1) \<Rightarrow> (ServerError, st1)
      | (Some (container, needsStart), st1) \<Rightarrow>
          (case (if needsStart then access_start enrollment container st1 else (True, st1)) of
             (False, st2) \<Rightarrow> (ServerError, st2)
           | (True, st2) \<Rightarrow>
               (RedirectStudent (getContainerName enrollment) (er_course_name enrollment),
                sessions_set (getContainerName enrollment)
                  \<lparr>se_containerId = container, se_enrollmentId = Some (er_id enrollment),
                   se_examSessionId = None,
                   se_imageId = er_environment_image enrollment,
                   se_imageName = er_course_name enrollment, se_isExam = False,
                   se_created = now\<rparr> st2)))"

definition access :: "time \<Rightarrow> string \<Rightarrow> state \<Rightarrow> response \<times> state" where
  "access now token st =
     (case getEnrollmentByToken token st of
        None \<Rightarrow> (InvalidLink, st)
      | Some enrollment \<Rightarrow>
          (case docker_inspect (ByName (getContainerName enrollment)) st of
             (info, st1) \<Rightarrow> access_resume now enrollment info st1))"

subsection \<open>Exam access: \<open>app.get('/exam/:assignmentId/:token')\<close>\<close>

text \<open>
  \<open>exam_access\<close> is the handler up to the time-window checks, \<open>exam_enter\<close> the lookup or
  creation of the exam session, and \<open>exam_resume\<close> the rest from the answer of \<open>inspect\<close>.
  The \<open>assignmentId\<close> of the URL is taken to be the canonical decimal text of a number
  and is modelled by that number: the database compares and stores it as an integer, and
  the handler's own uses of the text (container name, map key, work path) then coincide
  with \<open>String\<close> of the number. A spelling such as \<open>09\<close>, which the database reads as 9
  while the handler builds \<open>exam-09-...\<close> from it, is outside this model.
\<close>

definition exam_container_name :: "nat \<Rightarrow> nat \<Rightarrow> string" where
  "exam_container_name assignmentId studentId =
     ''exam-'' @ show_nat assignmentId @ ''-'' @ show_nat studentId"

definition exam_work_path :: "nat \<Rightarrow> nat \<Rightarrow> string list" where
  "exam_work_path assignmentId studentId =
     [''exams'', show_nat assignmentId, show_nat studentId]"

definition exam_create ::
  "nat \<Rightarrow> enrollment_row \<Rightarrow> exam_row \<Rightarrow> exam_session option \<Rightarrow> state \<Rightarrow> cref option \<times> state"
  where
  "exam_create assignmentId enrollment exam examSession st =
     (let assignmentDir =
            exam_work_path assignmentId (er_student_id enrollment) @ [xr_folder_name exam]
      in case docker_createContainer
                (exam_container_name assignmentId (er_student_id enrollment))
                (image_or_default (xr_environment_image exam))
                (writeFileSync (assignmentDir @ [''README.md'']) (ensureDir assignmentDir st)) of
           (None, st1) \<Rightarrow> (None, st1)
         | (Some container, st1) \<Rightarrow>
             (case examSession of
                None \<Rightarrow> (None, st1)
              | Some s \<Rightarrow> (Some container, updateExamSessionContainer (es_id s) container st1)))"

definition exam_resume ::
  "time \<Rightarrow> nat \<Rightarrow> enrollment_row \<Rightarrow> exam_row \<Rightarrow> exam_session option \<Rightarrow> bool option \<Rightarrow> state
   \<Rightarrow> response \<times> state" where
  "exam_resume now assignmentId enrollment exam examSession info st =
     (case (case info of
              Some running \<Rightarrow>
                (Some (ByName (exam_container_name assignmentId (er_student_id enrollment)),
                       \<not> running), st)
            | None \<Rightarrow>
                (case exam_create assignmentId enrollment exam examSession st of
                   (None, st1) \<Rightarrow> (None, st1)
                 | (Some container, st1) \<Rightarrow> (Some (container, True), st1))) of
        (None, st1) \<Rightarrow> (ServerError, st1)
      | (Some (container, needsStart), st1) \<Rightarrow>
          (case (if needsStart then docker_start container st1 else (True, st1)) of
             (False, st2) \<Rightarrow> (ServerError, st2)
           | (True, st2) \<Rightarrow>
               (case examSession of
                  None \<Rightarrow> (ServerError, st2)
                | Some s \<Rightarrow>
                    (RedirectExam (exam_container_name assignmentId (er_student_id enrollment))
                       (xr_title exam) (xr_end_time exam),
                     sessions_set (exam_container_name assignmentId (er_student_id enrollment))
                       \<lparr>se_containerId = container, se_enrollmentId = None,
                        se_examSessionId = Some (es_id s),
                        se_imageId = xr_environment_image exam,
                        se_imageName = xr_title exam, se_isExam = True,
                        se_created = now\<rparr> st2))))"

definition exam_enter ::
  "time \<Rightarrow> nat \<Rightarrow> enrollment_row \<Rightarrow> exam_row \<Rightarrow> state \<Rightarrow> response \<times> state" where
  "exam_enter now assignmentId enrollment exam st =
     (case getExamSessionByStudentAndAssignment (er_student_id enrollment) assignmentId st of
        Some s \<Rightarrow>
          if es_status s = Completed then (AlreadyCompleted, st)
          else (case docker_inspect
                       (ByName (exam_container_name assignmentId (er_student_id enrollment)))
                       (ensureDir (exam_work_path assignmentId (er_student_id enrollment)) st) of
                  (info, st1) \<Rightarrow>
                    exam_resume now assignmentId enrollment exam (Some s) info st1)
      | None \<Rightarrow>
          (case createExamSession assignmentId (er_student_id enrollment)
                  (exam_work_path assignmentId (er_student_id enrollment)) now
                  (ensureDir (exam_work_path assignmentId (er_student_id enrollment)) st) of
             (sessionId, st1) \<Rightarrow>
               (case docker_inspect
                       (ByName (exam_container_name assignmentId (er_student_id enrollment)))
                       st1 of
                  (info, st2) \<Rightarrow>
                    exam_resume now assignmentId enrollment exam
                      (getExamSession sessionId st1) info st2)))"

definition starts_later :: "time \<Rightarrow> time option \<Rightarrow> time option" where
  "starts_later now start_time =
     (case start_time of None \<Rightarrow> None | Some t \<Rightarrow> if now < t then Some t else None)"

definition ended_before :: "time \<Rightarrow> time option \<Rightarrow> bool" where
  "ended_before now end_time = (case end_time of None \<Rightarrow> False | Some t \<Rightarrow> t < now)"

definition exam_access :: "time \<Rightarrow> nat \<Rightarrow> string \<Rightarrow> state \<Rightarrow> response \<times> state" where
  "exam_access now assignmentId token st =
     (case getEnrollmentByToken token st of
        None \<Rightarrow> (InvalidLink, st)
      | Some enrollment \<Rightarrow>
          (case getExamAssignment assignmentId st of
             None \<Rightarrow> (ExamNotFound, st)
           | Some exam \<Rightarrow>
               if xr_course_id exam \<noteq> er_course_id enrollment then (NotEnrolled, st)
               else (case starts_later now (xr_start_time exam) of
                       Some t \<Rightarrow> (NotStarted t, st)
                     | None \<Rightarrow>
                         if ended_before now (xr_end_time exam) then (Ended, st)
                         else exam_enter now assignmentId enrollment exam st)))"

section \<open>Termination of exam sessions\<close>

text \<open>
  The operator endpoint \<open>/api/exam-sessions/:id/end\<close>, the endpoint
  \<open>/api/exam-sessions/check-expired\<close> and the one-minute \<open>setInterval\<close> sweeper contain the
  same three steps for one session: stop and remove its container inside a \<open>try\<close> whose
  \<open>catch\<close> only logs, mark the record completed, delete the entry of the \<open>sessions\<close> map.
  \<open>terminate\<close> is that block.
\<close>

definition stop_and_remove :: "cref option \<Rightarrow> state \<Rightarrow> state" where
  "stop_and_remove container_id st =
     (case container_id of
        None \<Rightarrow> st
      | Some c \<Rightarrow>
          (case docker_stop c st of
             (False, st1) \<Rightarrow> st1
           | (True, st1) \<Rightarrow> snd (docker_remove c st1)))"

definition terminate :: "time \<Rightarrow> exam_session \<Rightarrow> state \<Rightarrow> state" where
  "terminate now session st =
     sessions_delete (exam_container_name (es_assignment_id session) (es_student_id session))
       (endExamSession (es_id session) now
          (stop_and_remove (es_container_id session) st))"

definition end_exam_session :: "time \<Rightarrow> nat \<Rightarrow> state \<Rightarrow> response \<times> state" where
  "end_exam_session now sid st =
     (case getExamSession sid st of
        None \<Rightarrow> (SessionNotFound, st)
      | Some session \<Rightarrow> (Success, terminate now session st))"

definition expired :: "time \<Rightarrow> exam_session \<times> time option \<Rightarrow> bool" where
  "expired now row = ended_before now (snd row)"

fun check_expired_loop ::
  "time \<Rightarrow> (exam_session \<times> time option) list \<Rightarrow> nat \<Rightarrow> state \<Rightarrow> nat \<times> state" where
  "check_expired_loop now [] terminated st = (terminated, st)"
| "check_expired_loop now (row # rows) terminated st =
     (if expired now row
      then check_expired_loop now rows (Suc terminated) (terminate now (fst row) st)
      else check_expired_loop now rows terminated st)"

definition check_expired :: "time \<Rightarrow> state \<Rightarrow> response \<times> state" where
  "check_expired now st =
     (case check_expired_loop now (getActiveExamSessions st) 0 st of
        (terminated, st1) \<Rightarrow> (Checked terminated (length (getActiveExamSessions st)), st1))"

fun sweeper_loop :: "time \<Rightarrow> (exam_session \<times> time option) list \<Rightarrow> state \<Rightarrow> state" where
  "sweeper_loop now [] st = st"
| "sweeper_loop now (row # rows) st =
     (if expired now row then sweeper_loop now rows (terminate now (fst row) st)
      else sweeper_loop now rows st)"

definition sweeper_tick :: "time \<Rightarrow> state \<Rightarrow> state" where
  "sweeper_tick now st = sweeper_loop now (getActiveExamSessions st) st"

text \<open>The operations of the gateway that write exam sessions, containers or the map.\<close>

datatype operation =
    Access string
  | ExamAccess nat string
  | EndExamSession nat
  | CheckExpired
  | SweeperTick

fun perform :: "time \<Rightarrow> operation \<Rightarrow> state \<Rightarrow> state" where
  "perform now (Access token) st = snd (access now token st)"
| "perform now (ExamAccess assignmentId token) st = snd (exam_access now assignmentId token st)"
| "perform now (EndExamSession sid) st = snd (end_exam_session now sid st)"
| "perform now CheckExpired st = snd (check_expired now st)"
| "perform now SweeperTick st = sweeper_tick now st"

section \<open>Auxiliary notions\<close>

text \<open>The columns of an exam session that only its insertion and its termination write.\<close>

definition es_core :: "exam_session \<Rightarrow> nat \<times> nat \<times> nat \<times> es_status \<times> time option \<times> time option" where
  "es_core s = (es_id s, es_assignment_id s, es_student_id s, es_status s, es_started_at s, es_ended_at s)"

text \<open>At most one exam session per (assignment, student) pair.\<close>

definition one_session_per_pair :: "state \<Rightarrow> bool" where
  "one_session_per_pair st =
     distinct (map (\<lambda>s. (es_assignment_id s, es_student_id s)) (exam_sessions st))"

text \<open>
  A small database: students 7 and 4 enrolled in course 3 with tokens \<open>tok-A\<close> and
  \<open>tok-B\<close>; exam 9 open from 100 to 200, exam 10 without a window, exam 11 with its end
  before its start.
\<close>

definition example :: state where
  "example =
     \<lparr>students = [\<lparr>st_id = 7\<rparr>, \<lparr>st_id = 4\<rparr>],
      courses = [\<lparr>co_id = 3, co_name = ''CS101'', co_environment_image = None\<rparr>],
      enrollments =
        [\<lparr>e_id = 1, e_student_id = 7, e_course_id = 3, e_container_id = None,
          e_container_status = Stopped, e_access_token = ''tok-A''\<rparr>,
         \<lparr>e_id = 2, e_student_id = 4, e_course_id = 3, e_container_id = None,
          e_container_status = Stopped, e_access_token = ''tok-B''\<rparr>],
      assignments =
        [\<lparr>a_id = 9, a_course_id = 3, a_title = ''Midterm'', a_folder_name = ''midterm'',
          a_is_exam = True, a_start_time = Some 100, a_end_time = Some 200,
          a_created_at = 10\<rparr>,
         \<lparr>a_id = 10, a_course_id = 3, a_title = ''Open'', a_folder_name = ''open'',
          a_is_exam = True, a_start_time = None, a_end_time = None, a_created_at = 20\<rparr>,
         \<lparr>a_id = 11, a_course_id = 3, a_title = ''Quiz'', a_folder_name = ''quiz'',
          a_is_exam = True, a_start_time = Some 100, a_end_time = Some 50,
          a_created_at = 30\<rparr>],
      exam_sessions = [],
      exam_sessions_seq = 0,
      containers = [],
      next_container_id = 0,
      sessions = Map.empty,
      trace = []\<rparr>"

text \<open>The small database after student 4 has completed exam 9.\<close>

definition example_completed :: state where
  "example_completed =
     example\<lparr>exam_sessions :=
       [\<lparr>es_id = 1, es_assignment_id = 9, es_student_id = 4, es_container_id = Some (ById 0),
         es_work_volume_path = Some [''exams'', ''9'', ''4''], es_status = Completed,
         es_started_at = Some 120, es_ended_at = Some 201\<rparr>],
       exam_sessions_seq := 1, next_container_id := 1\<rparr>"

text \<open>The small database while the container of student 7 for course 3 runs.\<close>

definition example_running :: state where
  "example_running =
     example\<lparr>containers :=
               [\<lparr>c_id = 0, c_name = ''lms-3-7'', c_image = ''exam-desktop-vscode-python'',
                 c_running = True\<rparr>],
             next_container_id := 1\<rparr>"

text \<open>The effect of \<open>endExamSession\<close> on the rows whose id is in a given set.\<close>

definition mark_completed :: "time \<Rightarrow> nat set \<Rightarrow> exam_session \<Rightarrow> exam_session" where
  "mark_completed now ids s =
     (if es_id s \<in> ids then s\<lparr>es_status := Completed, es_ended_at := Some now\<rparr> else s)"

definition expired_ids :: "time \<Rightarrow> (exam_session \<times> time option) list \<Rightarrow> nat set" where
  "expired_ids now rows = es_id ` fst ` set (filter (expired now) rows)"

text \<open>
  The runtime calls the \<open>try\<close> block of a termination issues for a stored container id in
  a given state: none without an id; \<open>stop\<close>, and \<open>remove\<close> after it when \<open>stop\<close> did
  not throw.
\<close>

definition runtime_calls :: "cref option \<Rightarrow> state \<Rightarrow> event list" where
  "runtime_calls container_id st =
     (case container_id of
        None \<Rightarrow> []
      | Some c \<Rightarrow>
          (case resolve c st of
             None \<Rightarrow> [DockerStop c]
           | Some k \<Rightarrow> if c_running k then [DockerStop c, DockerRemove c] else [DockerStop c]))"

text \<open>
  The small database during exam 9 and exam 10: student 4 sits exam 9 in container 0,
  student 7 sits exam 10, which has no end, in container 1.
\<close>

definition example_active :: state where
  "example_active =
     example\<lparr>exam_sessions :=
       [\<lparr>es_id = 1, es_assignment_id = 9, es_student_id = 4, es_container_id = Some (ById 0),
         es_work_volume_path = Some [''exams'', ''9'', ''4''], es_status = Active,
         es_started_at = Some 120, es_ended_at = None\<rparr>,
        \<lparr>es_id = 2, es_assignment_id = 10, es_student_id = 7, es_container_id = Some (ById 1),
         es_work_volume_path = Some [''exams'', ''10'', ''7''], es_status = Active,
         es_started_at = Some 130, es_ended_at = None\<rparr>],
       exam_sessions_seq := 2,
       containers :=
         [\<lparr>c_id = 0, c_name = ''exam-9-4'', c_image = ''exam-desktop-vscode-python'',
           c_running = True\<rparr>,
          \<lparr>c_id = 1, c_name = ''exam-10-7'', c_image = ''exam-desktop-vscode-python'',
           c_running = True\<rparr>],
       next_container_id := 2\<rparr>"

text \<open>
  The database of \<open>example_active\<close> with container 0, the one recorded for the session
  of student 4 in exam 9, present but stopped.
\<close>

definition example_stopped :: state where
  "example_stopped =
     example_active\<lparr>containers :=
       [\<lparr>c_id = 0, c_name = ''exam-9-4'', c_image = ''exam-desktop-vscode-python'',
         c_running = False\<rparr>,
        \<lparr>c_id = 1, c_name = ''exam-10-7'', c_image = ''exam-desktop-vscode-python'',
         c_running = True\<rparr>]\<rparr>"

text \<open>
  The small database with a container named \<open>exam-9-4\<close> already running, left over from
  outside the exam sessions table, and no exam session.
\<close>

definition example_leftover :: state where
  "example_leftover =
     example\<lparr>containers :=
               [\<lparr>c_id = 0, c_name = ''exam-9-4'', c_image = ''exam-desktop-vscode-python'',
                 c_running = True\<rparr>],
             next_container_id := 1\<rparr>"

text \<open>
  The invariant of the data model: at most one exam session that is not completed per
  (assignment, student) pair.
\<close>

definition at_most_one_open :: "state \<Rightarrow> bool" where
  "at_most_one_open st =
     distinct (map (\<lambda>s. (es_assignment_id s, es_student_id s))
                   (filter (\<lambda>s. es_status s \<noteq> Completed) (exam_sessions st)))"

text \<open>
  How an operation may change one row: the pair stays, the status stays or becomes
  completed.
\<close>

definition row_step :: "exam_session \<Rightarrow> exam_session \<Rightarrow> bool" where
  "row_step x y =
     (es_assignment_id y = es_assignment_id x \<and> es_student_id y = es_student_id x \<and>
      (es_status y = es_status x \<or> es_status y = Completed))"

section \<open>Properties of the relay\<close>

lemma byte0_Some_iff: "byte0 d = Some b \<longleftrightarrow> (\<exists>bs. d = Buffer (b # bs))"
  by (cases d rule: byte0.cases) auto

text \<open>
  C1, as stated, at a concrete input: a message with leading byte 0 that arrives from the
  browser while the container-side connection is closing is not delivered, although its
  leading byte is not the clipboard marker.
\<close>

theorem relay_other_byte_not_delivered:
  "byte0 (Buffer [0, 7]) = Some 0 \<and> (0 :: 8 word) \<noteq> 6 \<and>
   clientWs_on_message CLOSING (Buffer [0, 7]) \<noteq> [Buffer [0, 7]]"
  by (simp add: clientWs_on_message_def)

text \<open>
  C1, amended: a message with leading byte 6 from the browser, or with leading byte 3 from
  the container, is never sent to the other side; a message with any other leading byte is
  sent to the other side verbatim, exactly once, when that side's connection is open, and
  is discarded when it is not.
\<close>

theorem relay_clipboard_filter:
  "(byte0 d = Some 6 \<longrightarrow> clientWs_on_message t d = []) \<and>
   (byte0 d = Some 3 \<longrightarrow> targetWs_on_message c d = []) \<and>
   (byte0 d = Some b \<and> b \<noteq> 6 \<longrightarrow>
      clientWs_on_message t d = (if t = OPEN then [d] else [])) \<and>
   (byte0 d = Some b \<and> b \<noteq> 3 \<longrightarrow>
      targetWs_on_message c d = (if c = OPEN then [d] else []))"
  by (auto simp: clientWs_on_message_def targetWs_on_message_def byte0_Some_iff)

theorem relay_clipboard_filter_witness:
  "byte0 (Buffer [6, 1]) = Some 6 \<and> (6 :: 8 word) \<noteq> 3 \<and>
   clientWs_on_message OPEN (Buffer [6, 1]) = [] \<and>
   targetWs_on_message OPEN (Buffer [6, 1]) = [Buffer [6, 1]] \<and>
   byte0 (Buffer [3]) = Some 3 \<and> (3 :: 8 word) \<noteq> 6 \<and>
   targetWs_on_message OPEN (Buffer [3]) = [] \<and>
   clientWs_on_message OPEN (Buffer [3]) = [Buffer [3]]"
proof -
  have h6: "byte0 (Buffer [6, 1]) = Some 6 \<and> (6 :: 8 word) \<noteq> 3" by simp
  have h3: "byte0 (Buffer [3]) = Some 3 \<and> (3 :: 8 word) \<noteq> 6" by simp
  from relay_clipboard_filter [of "Buffer [6, 1]" OPEN OPEN 6]
       relay_clipboard_filter [of "Buffer [3]" OPEN OPEN 3] h6 h3
  show ?thesis by simp
qed

text \<open>
  C9, as stated, at a concrete input: an empty \<open>Buffer\<close>, the payload of a message of
  length zero, that arrives from the browser while the container-side connection is
  closing skips the inspection and is then not forwarded.
\<close>

theorem relay_empty_buffer_not_forwarded:
  "isBuffer (Buffer []) \<and> data_length (Buffer []) = 0 \<and>
   clientWs_on_message CLOSING (Buffer []) = []"
  by (simp add: clientWs_on_message_def)

text \<open>
  C9, amended: a payload that is not a \<open>Buffer\<close>, or that has length zero, skips the
  leading-byte inspection in both directions: whatever its content, it is sent to the
  other side when that side's connection is open and discarded when it is not.
\<close>

theorem relay_uninspected_payloads:
  "\<not> isBuffer d \<or> data_length d = 0 \<Longrightarrow>
   clientWs_on_message t d = (if t = OPEN then [d] else []) \<and>
   targetWs_on_message c d = (if c = OPEN then [d] else [])"
  by (cases d rule: byte0.cases)
     (auto simp: clientWs_on_message_def targetWs_on_message_def)

theorem relay_uninspected_payloads_witness:
  "data_length (Buffer []) = 0 \<and>
   clientWs_on_message OPEN (Buffer []) = [Buffer []] \<and>
   targetWs_on_message OPEN (Buffer []) = [Buffer []] \<and>
   targetWs_on_message CLOSED (Buffer []) = []"
proof -
  have h: "\<not> isBuffer (Buffer []) \<or> data_length (Buffer []) = 0" by simp
  from relay_uninspected_payloads [OF h, of OPEN OPEN]
       relay_uninspected_payloads [OF h, of OPEN CLOSED]
  show ?thesis by simp
qed

section \<open>Properties of the session orchestrator\<close>

lemma emit_frame [simp]:
  "students (emit ev st) = students st"
  "courses (emit ev st) = courses st"
  "enrollments (emit ev st) = enrollments st"
  "assignments (emit ev st) = assignments st"
  "exam_sessions (emit ev st) = exam_sessions st"
  "exam_sessions_seq (emit ev st) = exam_sessions_seq st"
  "containers (emit ev st) = containers st"
  "next_container_id (emit ev st) = next_container_id st"
  "sessions (emit ev st) = sessions st"
  by (simp_all add: emit_def)

lemma trace_emit [simp]: "trace (emit ev st) = trace st @ [ev]"
  by (simp add: emit_def)

lemma ensureDir_frame [simp]:
  "students (ensureDir p st) = students st"
  "courses (ensureDir p st) = courses st"
  "enrollments (ensureDir p st) = enrollments st"
  "assignments (ensureDir p st) = assignments st"
  "exam_sessions (ensureDir p st) = exam_sessions st"
  "exam_sessions_seq (ensureDir p st) = exam_sessions_seq st"
  "containers (ensureDir p st) = containers st"
  "next_container_id (ensureDir p st) = next_container_id st"
  "sessions (ensureDir p st) = sessions st"
  by (simp_all add: ensureDir_def)

lemma trace_ensureDir [simp]: "trace (ensureDir p st) = trace st @ [FsEnsureDir p]"
  by (simp add: ensureDir_def)

lemma writeFileSync_frame [simp]:
  "students (writeFileSync p st) = students st"
  "courses (writeFileSync p st) = courses st"
  "enrollments (writeFileSync p st) = enrollments st"
  "assignments (writeFileSync p st) = assignments st"
  "exam_sessions (writeFileSync p st) = exam_sessions st"
  "exam_sessions_seq (writeFileSync p st) = exam_sessions_seq st"
  "containers (writeFileSync p st) = containers st"
  "next_container_id (writeFileSync p st) = next_container_id st"
  "sessions (writeFileSync p st) = sessions st"
  by (simp_all add: writeFileSync_def)

lemma trace_writeFileSync [simp]: "trace (writeFileSync p st) = trace st @ [FsWriteFile p]"
  by (simp add: writeFileSync_def)

lemma sessions_set_frame [simp]:
  "students (sessions_set k v st) = students st"
  "courses (sessions_set k v st) = courses st"
  "enrollments (sessions_set k v st) = enrollments st"
  "assignments (sessions_set k v st) = assignments st"
  "exam_sessions (sessions_set k v st) = exam_sessions st"
  "exam_sessions_seq (sessions_set k v st) = exam_sessions_seq st"
  "containers (sessions_set k v st) = containers st"
  "next_container_id (sessions_set k v st) = next_container_id st"
  by (simp_all add: sessions_set_def)

lemma sessions_set_effect [simp]:
  "sessions (sessions_set k v st) = (sessions st)(k \<mapsto> v)"
  "trace (sessions_set k v st) = trace st @ [SessionsSet k]"
  by (simp_all add: sessions_set_def)

lemma sessions_delete_frame [simp]:
  "students (sessions_delete k st) = students st"
  "courses (sessions_delete k st) = courses st"
  "enrollments (sessions_delete k st) = enrollments st"
  "assignments (sessions_delete k st) = assignments st"
  "exam_sessions (sessions_delete k st) = exam_sessions st"
  "exam_sessions_seq (sessions_delete k st) = exam_sessions_seq st"
  "containers (sessions_delete k st) = containers st"
  "next_container_id (sessions_delete k st) = next_container_id st"
  by (simp_all add: sessions_delete_def)

lemma sessions_delete_effect [simp]:
  "sessions (sessions_delete k st) = (sessions st)(k := None)"
  "trace (sessions_delete k st) = trace st @ [SessionsDelete k]"
  by (simp_all add: sessions_delete_def)

lemma updateEnrollmentContainer_frame [simp]:
  "students (updateEnrollmentContainer eid cid status st) = students st"
  "courses (updateEnrollmentContainer eid cid status st) = courses st"
  "assignments (updateEnrollmentContainer eid cid status st) = assignments st"
  "exam_sessions (updateEnrollmentContainer eid cid status st) = exam_sessions st"
  "exam_sessions_seq (updateEnrollmentContainer eid cid status st) = exam_sessions_seq st"
  "containers (updateEnrollmentContainer eid cid status st) = containers st"
  "next_container_id (updateEnrollmentContainer eid cid status st) = next_container_id st"
  "sessions (updateEnrollmentContainer eid cid status st) = sessions st"
  by (simp_all add: updateEnrollmentContainer_def)

lemma trace_updateEnrollmentContainer [simp]:
  "trace (updateEnrollmentContainer eid cid status st) =
     trace st @ [DbUpdateEnrollmentContainer eid cid status]"
  by (simp add: updateEnrollmentContainer_def)

lemma updateExamSessionContainer_frame [simp]:
  "students (updateExamSessionContainer sid cid st) = students st"
  "courses (updateExamSessionContainer sid cid st) = courses st"
  "enrollments (updateExamSessionContainer sid cid st) = enrollments st"
  "assignments (updateExamSessionContainer sid cid st) = assignments st"
  "exam_sessions_seq (updateExamSessionContainer sid cid st) = exam_sessions_seq st"
  "containers (updateExamSessionContainer sid cid st) = containers st"
  "next_container_id (updateExamSessionContainer sid cid st) = next_container_id st"
  "sessions (updateExamSessionContainer sid cid st) = sessions st"
  by (simp_all add: updateExamSessionContainer_def)

lemma updateExamSessionContainer_effect [simp]:
  "trace (updateExamSessionContainer sid cid st) =
     trace st @ [DbUpdateExamSessionContainer sid cid]"
  "exam_sessions (updateExamSessionContainer sid cid st) =
     map (\<lambda>s. if es_id s = sid then s\<lparr>es_container_id := Some cid\<rparr> else s) (exam_sessions st)"
  by (simp_all add: updateExamSessionContainer_def)

lemma endExamSession_frame [simp]:
  "students (endExamSession sid now st) = students st"
  "courses (endExamSession sid now st) = courses st"
  "enrollments (endExamSession sid now st) = enrollments st"
  "assignments (endExamSession sid now st) = assignments st"
  "exam_sessions_seq (endExamSession sid now st) = exam_sessions_seq st"
  "containers (endExamSession sid now st) = containers st"
  "next_container_id (endExamSession sid now st) = next_container_id st"
  "sessions (endExamSession sid now st) = sessions st"
  by (simp_all add: endExamSession_def)

lemma endExamSession_effect [simp]:
  "trace (endExamSession sid now st) = trace st @ [DbEndExamSession sid]"
  "exam_sessions (endExamSession sid now st) =
     map (\<lambda>s. if es_id s = sid then s\<lparr>es_status := Completed, es_ended_at := Some now\<rparr> else s)
         (exam_sessions st)"
  by (simp_all add: endExamSession_def)

lemma createExamSession_frame [simp]:
  "students (snd (createExamSession a u p now st)) = students st"
  "courses (snd (createExamSession a u p now st)) = courses st"
  "enrollments (snd (createExamSession a u p now st)) = enrollments st"
  "assignments (snd (createExamSession a u p now st)) = assignments st"
  "containers (snd (createExamSession a u p now st)) = containers st"
  "next_container_id (snd (createExamSession a u p now st)) = next_container_id st"
  "sessions (snd (createExamSession a u p now st)) = sessions st"
  by (simp_all add: createExamSession_def Let_def)

lemma docker_inspect_frame [simp]:
  "students (snd (docker_inspect r st)) = students st"
  "courses (snd (docker_inspect r st)) = courses st"
  "enrollments (snd (docker_inspect r st)) = enrollments st"
  "assignments (snd (docker_inspect r st)) = assignments st"
  "exam_sessions (snd (docker_inspect r st)) = exam_sessions st"
  "exam_sessions_seq (snd (docker_inspect r st)) = exam_sessions_seq st"
  "containers (snd (docker_inspect r st)) = containers st"
  "next_container_id (snd (docker_inspect r st)) = next_container_id st"
  "sessions (snd (docker_inspect r st)) = sessions st"
  by (simp_all add: docker_inspect_def Let_def split: option.splits)

lemma trace_docker_inspect [simp]: "trace (snd (docker_inspect r st)) = trace st @ [DockerInspect r]"
  by (simp add: docker_inspect_def Let_def split: option.splits)

lemma docker_start_frame [simp]:
  "students (snd (docker_start r st)) = students st"
  "courses (snd (docker_start r st)) = courses st"
  "enrollments (snd (docker_start r st)) = enrollments st"
  "assignments (snd (docker_start r st)) = assignments st"
  "exam_sessions (snd (docker_start r st)) = exam_sessions st"
  "exam_sessions_seq (snd (docker_start r st)) = exam_sessions_seq st"
  "next_container_id (snd (docker_start r st)) = next_container_id st"
  "sessions (snd (docker_start r st)) = sessions st"
  by (simp_all add: docker_start_def Let_def split: option.splits)

lemma trace_docker_start [simp]: "trace (snd (docker_start r st)) = trace st @ [DockerStart r]"
  by (simp add: docker_start_def Let_def split: option.splits)

lemma docker_stop_frame [simp]:
  "students (snd (docker_stop r st)) = students st"
  "courses (snd (docker_stop r st)) = courses st"
  "enrollments (snd (docker_stop r st)) = enrollments st"
  "assignments (snd (docker_stop r st)) = assignments st"
  "exam_sessions (snd (docker_stop r st)) = exam_sessions st"
  "exam_sessions_seq (snd (docker_stop r st)) = exam_sessions_seq st"
  "next_container_id (snd (docker_stop r st)) = next_container_id st"
  "sessions (snd (docker_stop r st)) = sessions st"
  by (simp_all add: docker_stop_def Let_def split: option.splits)

lemma trace_docker_stop [simp]: "trace (snd (docker_stop r st)) = trace st @ [DockerStop r]"
  by (simp add: docker_stop_def Let_def split: option.splits)

lemma docker_remove_frame [simp]:
  "students (snd (docker_remove r st)) = students st"
  "courses (snd (docker_remove r st)) = courses st"
  "enrollments (snd (docker_remove r st)) = enrollments st"
  "assignments (snd (docker_remove r st)) = assignments st"
  "exam_sessions (snd (docker_remove r st)) = exam_sessions st"
  "exam_sessions_seq (snd (docker_remove r st)) = exam_sessions_seq st"
  "next_container_id (snd (docker_remove r st)) = next_container_id st"
  "sessions (snd (docker_remove r st)) = sessions st"
  by (simp_all add: docker_remove_def Let_def split: option.splits)

lemma trace_docker_remove [simp]: "trace (snd (docker_remove r st)) = trace st @ [DockerRemove r]"
  by (simp add: docker_remove_def Let_def split: option.splits)

lemma docker_createContainer_frame [simp]:
  "students (snd (docker_createContainer n i st)) = students st"
  "courses (snd (docker_createContainer n i st)) = courses st"
  "enrollments (snd (docker_createContainer n i st)) = enrollments st"
  "assignments (snd (docker_createContainer n i st)) = assignments st"
  "exam_sessions (snd (docker_createContainer n i st)) = exam_sessions st"
  "exam_sessions_seq (snd (docker_createContainer n i st)) = exam_sessions_seq st"
  "sessions (snd (docker_createContainer n i st)) = sessions st"
  by (simp_all add: docker_createContainer_def Let_def)

lemma trace_docker_createContainer [simp]:
  "trace (snd (docker_createContainer n i st)) = trace st @ [DockerCreate n]"
  by (simp add: docker_createContainer_def Let_def)

lemma sync_fold_frame:
  "students (fold (\<lambda>a s. writeFileSync (p a) (ensureDir (q a) s)) xs st) = students st"
  "courses (fold (\<lambda>a s. writeFileSync (p a) (ensureDir (q a) s)) xs st) = courses st"
  "enrollments (fold (\<lambda>a s. writeFileSync (p a) (ensureDir (q a) s)) xs st) = enrollments st"
  "assignments (fold (\<lambda>a s. writeFileSync (p a) (ensureDir (q a) s)) xs st) = assignments st"
  "exam_sessions (fold (\<lambda>a s. writeFileSync (p a) (ensureDir (q a) s)) xs st) = exam_sessions st"
  "exam_sessions_seq (fold (\<lambda>a s. writeFileSync (p a) (ensureDir (q a) s)) xs st) = exam_sessions_seq st"
  "containers (fold (\<lambda>a s. writeFileSync (p a) (ensureDir (q a) s)) xs st) = containers st"
  "next_container_id (fold (\<lambda>a s. writeFileSync (p a) (ensureDir (q a) s)) xs st) = next_container_id st"
  "sessions (fold (\<lambda>a s. writeFileSync (p a) (ensureDir (q a) s)) xs st) = sessions st"
  by (induction xs arbitrary: st; simp)+

lemma syncAssignmentsToWorkspace_frame [simp]:
  "students (syncAssignmentsToWorkspace c w st) = students st"
  "courses (syncAssignmentsToWorkspace c w st) = courses st"
  "enrollments (syncAssignmentsToWorkspace c w st) = enrollments st"
  "assignments (syncAssignmentsToWorkspace c w st) = assignments st"
  "exam_sessions (syncAssignmentsToWorkspace c w st) = exam_sessions st"
  "exam_sessions_seq (syncAssignmentsToWorkspace c w st) = exam_sessions_seq st"
  "containers (syncAssignmentsToWorkspace c w st) = containers st"
  "next_container_id (syncAssignmentsToWorkspace c w st) = next_container_id st"
  "sessions (syncAssignmentsToWorkspace c w st) = sessions st"
  by (simp_all add: syncAssignmentsToWorkspace_def Let_def sync_fold_frame)

lemma pair_snd_eq: "p = (a, b) \<Longrightarrow> b = snd p"
  by simp

lemma exam_create_frame:
  assumes "exam_create aid e x es st = (r, st')"
  shows "(students st' = students st) \<and>
     (courses st' = courses st) \<and>
     (enrollments st' = enrollments st) \<and>
     (assignments st' = assignments st) \<and>
     (exam_sessions_seq st' = exam_sessions_seq st) \<and>
     (sessions st' = sessions st) \<and>
     (map es_core (exam_sessions st') = map es_core (exam_sessions st))"
  using assms
  by (auto simp: exam_create_def Let_def es_core_def split: prod.splits option.splits
           dest!: pair_snd_eq)

lemma docker_start_result:
  assumes "docker_start r st = (b, st')"
  shows "(students st' = students st) \<and>
     (courses st' = courses st) \<and>
     (enrollments st' = enrollments st) \<and>
     (assignments st' = assignments st) \<and>
     (exam_sessions st' = exam_sessions st) \<and>
     (exam_sessions_seq st' = exam_sessions_seq st) \<and>
     (sessions st' = sessions st) \<and>
     (next_container_id st' = next_container_id st) \<and>
     (trace st' = trace st @ [DockerStart r])"
  using pair_snd_eq [OF assms] by simp

lemma docker_inspect_result:
  assumes "docker_inspect r st = (b, st')"
  shows "(students st' = students st) \<and>
     (courses st' = courses st) \<and>
     (enrollments st' = enrollments st) \<and>
     (assignments st' = assignments st) \<and>
     (exam_sessions st' = exam_sessions st) \<and>
     (exam_sessions_seq st' = exam_sessions_seq st) \<and>
     (sessions st' = sessions st) \<and>
     (next_container_id st' = next_container_id st) \<and>
     (containers st' = containers st) \<and>
     (trace st' = trace st @ [DockerInspect r])"
  using pair_snd_eq [OF assms] by simp

lemma exam_resume_frame:
  assumes "exam_resume now aid e x es info st = (r, st')"
  shows "(students st' = students st) \<and>
     (courses st' = courses st) \<and>
     (enrollments st' = enrollments st) \<and>
     (assignments st' = assignments st) \<and>
     (exam_sessions_seq st' = exam_sessions_seq st) \<and>
     (map es_core (exam_sessions st') = map es_core (exam_sessions st)) \<and>
     (r = ServerError \<or> r = RedirectExam (exam_container_name aid (er_student_id e)) (xr_title x) (xr_end_time x))"
  using assms
  by (auto simp: exam_resume_def split: option.splits prod.splits bool.splits if_splits
           dest!: exam_create_frame docker_start_result)

lemma createExamSession_effect:
  assumes "createExamSession a u p now st = (sid, st')"
  shows "(sid = Suc (fold max (map es_id (exam_sessions st)) (exam_sessions_seq st))) \<and>
     (exam_sessions st' = exam_sessions st @
       [\<lparr>es_id = sid, es_assignment_id = a, es_student_id = u, es_container_id = None,
         es_work_volume_path = Some p, es_status = Active, es_started_at = Some now,
         es_ended_at = None\<rparr>]) \<and>
     (students st' = students st) \<and>
     (courses st' = courses st) \<and>
     (enrollments st' = enrollments st) \<and>
     (assignments st' = assignments st) \<and>
     (containers st' = containers st) \<and>
     (sessions st' = sessions st) \<and>
     (trace st' = trace st @ [DbCreateExamSession sid])"
  using assms by (auto simp: createExamSession_def Let_def)

lemma exam_enter_found:
  assumes "exam_enter now aid e x st = (r, st')"
      and "getExamSessionByStudentAndAssignment (er_student_id e) aid st = Some s"
  shows "(map es_core (exam_sessions st') = map es_core (exam_sessions st)) \<and>
     (students st' = students st) \<and>
     (courses st' = courses st) \<and>
     (enrollments st' = enrollments st) \<and>
     (assignments st' = assignments st)"
  using assms
  by (auto simp: exam_enter_def split: if_splits prod.splits
           dest!: exam_resume_frame docker_inspect_result)

lemma exam_enter_new:
  assumes "exam_enter now aid e x st = (r, st')"
      and "getExamSessionByStudentAndAssignment (er_student_id e) aid st = None"
  shows "(map es_core (exam_sessions st') =
           map es_core (exam_sessions st) @
           [(Suc (fold max (map es_id (exam_sessions st)) (exam_sessions_seq st)), aid,
             er_student_id e, Active, Some now, None)]) \<and>
     (students st' = students st) \<and>
     (courses st' = courses st) \<and>
     (enrollments st' = enrollments st) \<and>
     (assignments st' = assignments st)"
  using assms
  by (auto simp: exam_enter_def es_core_def split: if_splits prod.splits
           dest!: exam_resume_frame docker_inspect_result createExamSession_effect)

lemma exam_resume_response:
  "fst (exam_resume now aid e x es info st) = ServerError \<or>
   fst (exam_resume now aid e x es info st) =
     RedirectExam (exam_container_name aid (er_student_id e)) (xr_title x) (xr_end_time x)"
  using exam_resume_frame [of now aid e x es info st] by (metis prod.collapse)

lemma exam_enter_response:
  "fst (exam_enter now aid e x st) = AlreadyCompleted \<or>
   fst (exam_enter now aid e x st) = ServerError \<or>
   fst (exam_enter now aid e x st) =
     RedirectExam (exam_container_name aid (er_student_id e)) (xr_title x) (xr_end_time x)"
  using exam_resume_response [of now aid e x]
  by (simp add: exam_enter_def split: option.splits if_splits prod.splits)

lemma find_distinct_key:
  "distinct (map f xs) \<Longrightarrow> s \<in> set xs \<Longrightarrow> find (\<lambda>x. f x = f s) xs = Some s"
  by (induction xs) (auto simp: image_iff)

lemma example_enrollment_A:
  "getEnrollmentByToken ''tok-A'' example =
     Some \<lparr>er_id = 1, er_student_id = 7, er_course_id = 3, er_course_name = ''CS101'',
           er_environment_image = None\<rparr>"
  by (simp add: getEnrollmentByToken_def example_def)

lemma example_exam_9:
  "getExamAssignment 9 example =
     Some \<lparr>xr_course_id = 3, xr_title = ''Midterm'', xr_folder_name = ''midterm'',
           xr_start_time = Some 100, xr_end_time = Some 200, xr_course_name = ''CS101'',
           xr_environment_image = None\<rparr>"
  by (simp add: getExamAssignment_def example_def)



lemma es_core_eqD:
  "es_core x = es_core y \<Longrightarrow>
   es_id x = es_id y \<and> es_assignment_id x = es_assignment_id y \<and>
   es_student_id x = es_student_id y \<and> es_status x = es_status y"
  by (simp add: es_core_def)


lemma find_None_filter: "find P xs = None \<longleftrightarrow> filter P xs = []"
  by (induction xs) auto


lemma find_distinct_pair:
  "distinct (map (\<lambda>s. (es_assignment_id s, es_student_id s)) xs) \<Longrightarrow> s \<in> set xs \<Longrightarrow>
   find (\<lambda>x. es_student_id x = es_student_id s \<and> es_assignment_id x = es_assignment_id s) xs =
     Some s"
  by (induction xs) (auto simp: image_iff)

lemma exam_enter_not_window_error:
  "fst (exam_enter now aid e x st) \<noteq> Ended \<and> fst (exam_enter now aid e x st) \<noteq> NotStarted t"
  using exam_enter_response [of now aid e x st] by auto

text \<open>
  C4: inside the time window, when the exam session of the (student, assignment) pair is
  completed, the request is refused as already completed and the state is unchanged: no
  runtime call is issued, no container created or started, no record written.
\<close>

theorem exam_access_already_completed:
  assumes "getEnrollmentByToken token st = Some enrollment"
      and "getExamAssignment assignmentId st = Some exam"
      and "xr_course_id exam = er_course_id enrollment"
      and "starts_later now (xr_start_time exam) = None"
      and "\<not> ended_before now (xr_end_time exam)"
      and "one_session_per_pair st"
      and "s \<in> set (exam_sessions st)"
      and "es_assignment_id s = assignmentId"
      and "es_student_id s = er_student_id enrollment"
      and "es_status s = Completed"
  shows "exam_access now assignmentId token st = (AlreadyCompleted, st)"
proof -
  from assms(6,7)
  have "find (\<lambda>x. es_student_id x = es_student_id s \<and> es_assignment_id x = es_assignment_id s)
          (exam_sessions st) = Some s"
    unfolding one_session_per_pair_def by (rule find_distinct_pair)
  with assms(8,9) have
    "getExamSessionByStudentAndAssignment (er_student_id enrollment) assignmentId st = Some s"
    by (simp add: getExamSessionByStudentAndAssignment_def)
  with assms show ?thesis
    by (simp add: exam_access_def exam_enter_def)
qed

lemma example_completed_enrollment_B:
  "getEnrollmentByToken ''tok-B'' example_completed =
     Some \<lparr>er_id = 2, er_student_id = 4, er_course_id = 3, er_course_name = ''CS101'',
           er_environment_image = None\<rparr>"
  by (simp add: getEnrollmentByToken_def example_completed_def example_def)

lemma example_completed_exam_9:
  "getExamAssignment 9 example_completed =
     Some \<lparr>xr_course_id = 3, xr_title = ''Midterm'', xr_folder_name = ''midterm'',
           xr_start_time = Some 100, xr_end_time = Some 200, xr_course_name = ''CS101'',
           xr_environment_image = None\<rparr>"
  by (simp add: getExamAssignment_def example_completed_def example_def)

theorem exam_access_already_completed_witness:
  "exam_access 150 9 ''tok-B'' example_completed = (AlreadyCompleted, example_completed)"
  by (rule exam_access_already_completed
        [OF example_completed_enrollment_B example_completed_exam_9,
         where s = "\<lparr>es_id = 1, es_assignment_id = 9, es_student_id = 4,
           es_container_id = Some (ById 0),
           es_work_volume_path = Some [''exams'', ''9'', ''4''], es_status = Completed,
           es_started_at = Some 120, es_ended_at = Some 201\<rparr>"])
     (simp_all add: starts_later_def ended_before_def one_session_per_pair_def
        example_completed_def example_def)


lemma exam_open_ended:
  assumes "getExamAssignment assignmentId st = Some exam"
  shows "(xr_end_time exam = None \<longrightarrow> fst (exam_access now assignmentId token st) \<noteq> Ended) \<and>
         (xr_start_time exam = None \<longrightarrow>
            (\<forall>t. fst (exam_access now assignmentId token st) \<noteq> NotStarted t))"
  using assms
  by (simp add: exam_access_def starts_later_def ended_before_def exam_enter_not_window_error
           split: option.splits)

lemma getEnrollmentByToken_inspect [simp]:
  "getEnrollmentByToken tok (snd (docker_inspect r st)) = getEnrollmentByToken tok st"
  by (simp add: getEnrollmentByToken_def cong: option.case_cong)

lemma access_running:
  assumes "getEnrollmentByToken token st = Some enrollment"
      and "resolve (ByName (getContainerName enrollment)) st = Some k"
      and "c_running k"
  shows "access now token st =
           (RedirectStudent (getContainerName enrollment) (er_course_name enrollment),
            sessions_set (getContainerName enrollment)
              \<lparr>se_containerId = ByName (getContainerName enrollment),
               se_enrollmentId = Some (er_id enrollment), se_examSessionId = None,
               se_imageId = er_environment_image enrollment,
               se_imageName = er_course_name enrollment, se_isExam = False,
               se_created = now\<rparr>
              (emit (DockerInspect (ByName (getContainerName enrollment))) st))"
  using assms by (simp add: access_def docker_inspect_def access_resume_def)

lemma access_resume_key:
  "fst (access_resume now e info st) = RedirectStudent key crs \<Longrightarrow> key = getContainerName e"
  by (auto simp: access_resume_def split: option.splits prod.splits bool.splits if_splits)

lemma access_key:
  assumes "getEnrollmentByToken token st = Some e"
      and "fst (access now token st) = RedirectStudent key crs"
  shows "key = getContainerName e"
  using assms
  by (auto simp: access_def split: prod.splits dest: access_resume_key)

text \<open>
  C7: a regular access with a valid token whose named container exists and runs issues
  one runtime call, the inspection, and neither \<open>createContainer\<close> nor \<open>start\<close>; it
  answers the redirect with the session key derived from the enrollment, which is the key
  of every successful access with that token; the containers, the next container id and
  the enrollment records are unchanged.
\<close>

theorem access_running_container_untouched:
  assumes "getEnrollmentByToken token st = Some enrollment"
      and "resolve (ByName (getContainerName enrollment)) st = Some k"
      and "c_running k"
  shows "fst (access now token st) =
           RedirectStudent (getContainerName enrollment) (er_course_name enrollment) \<and>
         trace (snd (access now token st)) =
           trace st @ [DockerInspect (ByName (getContainerName enrollment)),
                       SessionsSet (getContainerName enrollment)] \<and>
         containers (snd (access now token st)) = containers st \<and>
         next_container_id (snd (access now token st)) = next_container_id st \<and>
         enrollments (snd (access now token st)) = enrollments st \<and>
         (\<forall>now0 st0 key crs.
            getEnrollmentByToken token st0 = Some enrollment \<and>
            fst (access now0 token st0) = RedirectStudent key crs \<longrightarrow>
            key = getContainerName enrollment)"
  using access_running [OF assms, of now] access_key [of token _ enrollment] by auto

lemma show_nat_digits [simp]:
  "show_nat 3 = ''3''" "show_nat 4 = ''4''" "show_nat 7 = ''7''" "show_nat 9 = ''9''"
  "show_nat 10 = ''10''"
  by (simp_all add: show_nat.simps digit_char_def)

lemma example_running_enrollment_A:
  "getEnrollmentByToken ''tok-A'' example_running =
     Some \<lparr>er_id = 1, er_student_id = 7, er_course_id = 3, er_course_name = ''CS101'',
           er_environment_image = None\<rparr>"
  by (simp add: getEnrollmentByToken_def example_running_def example_def)

theorem access_running_container_untouched_witness:
  "fst (access 5 ''tok-A'' example_running) = RedirectStudent ''lms-3-7'' ''CS101'' \<and>
   trace (snd (access 5 ''tok-A'' example_running)) =
     [DockerInspect (ByName ''lms-3-7''), SessionsSet ''lms-3-7''] \<and>
   containers (snd (access 5 ''tok-A'' example_running)) = containers example_running"
proof -
  have r: "resolve (ByName (getContainerName
              \<lparr>er_id = 1, er_student_id = 7, er_course_id = 3, er_course_name = ''CS101'',
               er_environment_image = None\<rparr>)) example_running =
           Some \<lparr>c_id = 0, c_name = ''lms-3-7'', c_image = ''exam-desktop-vscode-python'',
                 c_running = True\<rparr>"
    by (simp add: resolve_def refers_def getContainerName_def example_running_def example_def)
  have t: "trace example_running = []"
    by (simp add: example_running_def example_def)
  from access_running_container_untouched [OF example_running_enrollment_A r, of 5] t
  show ?thesis by (simp add: getContainerName_def)
qed

lemma find_append_split:
  "find P (xs @ ys) = (case find P xs of None \<Rightarrow> find P ys | Some x \<Rightarrow> Some x)"
  by (induction xs) auto

lemma find_fresh_id:
  "\<forall>c\<in>set cs. c_id c < n \<Longrightarrow> find (refers (ById n)) cs = None"
  by (induction cs) (auto simp: refers_def)

lemma access_create_conflict:
  assumes "getContainerName e \<in> set (map c_name (containers st))"
  shows "access_create e st =
           (None, emit (DockerCreate (getContainerName e)) (ensureDir (workspace_of e) st))"
  using assms by (simp add: access_create_def docker_createContainer_def Let_def)

lemma access_resume_conflict:
  assumes "getContainerName e \<in> set (map c_name (containers st))"
  shows "access_resume now e None st =
           (ServerError, emit (DockerCreate (getContainerName e)) (ensureDir (workspace_of e) st))"
  by (simp add: access_resume_def access_create_conflict [OF assms])

lemma access_create_fresh:
  assumes "getContainerName e \<notin> set (map c_name (containers st))"
  shows "fst (access_create e st) = Some (ById (next_container_id st)) \<and>
         containers (snd (access_create e st)) =
           containers st @
           [\<lparr>c_id = next_container_id st, c_name = getContainerName e,
             c_image = image_or_default (er_environment_image e), c_running = False\<rparr>]"
  using assms by (simp add: access_create_def docker_createContainer_def Let_def)

lemma access_create_Some:
  assumes "getContainerName e \<notin> set (map c_name (containers st))"
  obtains st1 where "access_create e st = (Some (ById (next_container_id st)), st1)"
    and "containers st1 =
           containers st @
           [\<lparr>c_id = next_container_id st, c_name = getContainerName e,
             c_image = image_or_default (er_environment_image e), c_running = False\<rparr>]"
  using access_create_fresh [OF assms] by (cases "access_create e st") auto

lemma access_start_stopped:
  assumes "resolve c st = Some k" and "\<not> c_running k"
  shows "fst (access_start e c st) \<and>
         containers (snd (access_start e c st)) =
           map (\<lambda>x. if c_id x = c_id k then x\<lparr>c_running := True\<rparr> else x) (containers st)"
  using assms by (simp add: access_start_def docker_start_def Let_def resolve_def)

lemma access_start_True:
  assumes "resolve c st = Some k" and "\<not> c_running k"
  obtains st1 where "access_start e c st = (True, st1)"
    and "containers st1 =
           map (\<lambda>x. if c_id x = c_id k then x\<lparr>c_running := True\<rparr> else x) (containers st)"
  using access_start_stopped [OF assms, of e] by (cases "access_start e c st") auto

lemma access_first:
  assumes "getEnrollmentByToken token st = Some e"
      and "getContainerName e \<notin> set (map c_name (containers st))"
      and "\<forall>c\<in>set (containers st). c_id c < next_container_id st"
  shows "fst (access now token st) = RedirectStudent (getContainerName e) (er_course_name e) \<and>
         containers (snd (access now token st)) =
           containers st @
           [\<lparr>c_id = next_container_id st, c_name = getContainerName e,
             c_image = image_or_default (er_environment_image e), c_running = True\<rparr>]"
proof -
  let ?n = "getContainerName e"
  let ?st0 = "emit (DockerInspect (ByName ?n)) st"
  let ?new = "\<lparr>c_id = next_container_id st, c_name = ?n,
               c_image = image_or_default (er_environment_image e), c_running = False\<rparr>"
  from assms(2) have nf: "find (refers (ByName ?n)) (containers st) = None"
    by (auto simp: find_None_iff refers_def image_iff)
  have ins: "docker_inspect (ByName ?n) st = (None, ?st0)"
    using nf by (simp add: docker_inspect_def resolve_def)
  from assms(2) have "?n \<notin> set (map c_name (containers ?st0))" by simp
  then obtain st1 where c: "access_create e ?st0 = (Some (ById (next_container_id ?st0)), st1)"
    and cs1: "containers st1 = containers ?st0 @
           [\<lparr>c_id = next_container_id ?st0, c_name = ?n,
             c_image = image_or_default (er_environment_image e), c_running = False\<rparr>]"
    by (rule access_create_Some)
  have r: "resolve (ById (next_container_id st)) st1 = Some ?new"
    using cs1 find_fresh_id [OF assms(3)]
    by (simp add: resolve_def find_append_split refers_def)
  obtain st2 where s: "access_start e (ById (next_container_id st)) st1 = (True, st2)"
    and cs2: "containers st2 =
      map (\<lambda>x. if c_id x = c_id ?new then x\<lparr>c_running := True\<rparr> else x) (containers st1)"
    using r by (rule access_start_True) simp
  have old: "map (\<lambda>x. if c_id x = next_container_id st then x\<lparr>c_running := True\<rparr> else x)
               (containers st) = containers st"
    using assms(3) by (intro map_idI) auto
  from cs2 cs1 old have cs2': "containers st2 = containers st @ [?new\<lparr>c_running := True\<rparr>]"
    by simp
  show ?thesis
    using assms(1) ins c s cs2' by (simp add: access_def access_resume_def)
qed

lemma access_race:
  assumes "getEnrollmentByToken token st = Some e"
      and "getContainerName e \<notin> set (map c_name (containers st))"
      and "\<forall>c\<in>set (containers st). c_id c < next_container_id st"
  shows "fst (docker_inspect (ByName (getContainerName e)) st) = None \<and>
         fst (access nowB token (snd (docker_inspect (ByName (getContainerName e)) st))) =
           RedirectStudent (getContainerName e) (er_course_name e) \<and>
         access_resume nowA e None
             (snd (access nowB token (snd (docker_inspect (ByName (getContainerName e)) st)))) =
           (ServerError,
            emit (DockerCreate (getContainerName e))
              (ensureDir (workspace_of e)
                 (snd (access nowB token
                         (snd (docker_inspect (ByName (getContainerName e)) st)))))) \<and>
         length (filter (\<lambda>c. c_name c = getContainerName e)
                   (containers (snd (access nowB token
                      (snd (docker_inspect (ByName (getContainerName e)) st)))))) = 1"
proof -
  let ?n = "getContainerName e"
  let ?stA = "snd (docker_inspect (ByName ?n) st)"
  from assms(2) have nf: "find (refers (ByName ?n)) (containers st) = None"
    by (auto simp: find_None_iff refers_def image_iff)
  then have 1: "fst (docker_inspect (ByName ?n) st) = None"
    by (simp add: docker_inspect_def resolve_def)
  have "getEnrollmentByToken token ?stA = Some e"
       "?n \<notin> set (map c_name (containers ?stA))"
       "\<forall>c\<in>set (containers ?stA). c_id c < next_container_id ?stA"
    using assms by simp_all
  from access_first [OF this, of nowB]
  have 2: "fst (access nowB token ?stA) = RedirectStudent ?n (er_course_name e)"
    and cs: "containers (snd (access nowB token ?stA)) =
           containers st @
           [\<lparr>c_id = next_container_id st, c_name = ?n,
             c_image = image_or_default (er_environment_image e), c_running = True\<rparr>]"
    by simp_all
  from cs have "?n \<in> set (map c_name (containers (snd (access nowB token ?stA))))"
    by simp
  from access_resume_conflict [OF this, of nowA]
  have 3: "access_resume nowA e None (snd (access nowB token ?stA)) =
           (ServerError,
            emit (DockerCreate ?n) (ensureDir (workspace_of e) (snd (access nowB token ?stA))))" .
  from assms(2) have "filter (\<lambda>c. c_name c = ?n) (containers st) = []"
    by (auto simp: filter_empty_conv image_iff)
  with cs have 4: "length (filter (\<lambda>c. c_name c = ?n)
                     (containers (snd (access nowB token ?stA)))) = 1"
    by simp
  from 1 2 3 4 show ?thesis by simp
qed

text \<open>
  C2, as stated, at a concrete input: two first accesses with token \<open>tok-A\<close> on the small
  database. Request A inspects and finds no container; request B then runs to its
  redirect, creating and starting \<open>lms-3-7\<close>; request A resumes at \<open>createContainer\<close>,
  which the runtime rejects because the name is in use, and A answers 500.
\<close>

theorem access_conflict_answers_500:
  "fst (docker_inspect (ByName ''lms-3-7'') example) = None \<and>
   fst (access 2 ''tok-A'' (snd (docker_inspect (ByName ''lms-3-7'') example))) =
     RedirectStudent ''lms-3-7'' ''CS101'' \<and>
   fst (access_resume 1
          \<lparr>er_id = 1, er_student_id = 7, er_course_id = 3, er_course_name = ''CS101'',
           er_environment_image = None\<rparr>
          None
          (snd (access 2 ''tok-A'' (snd (docker_inspect (ByName ''lms-3-7'') example))))) =
     ServerError"
proof -
  have "getContainerName
          \<lparr>er_id = 1, er_student_id = 7, er_course_id = 3, er_course_name = ''CS101'',
           er_environment_image = None\<rparr> \<notin> set (map c_name (containers example))"
       "\<forall>c\<in>set (containers example). c_id c < next_container_id example"
    by (simp_all add: example_def)
  from access_race [OF example_enrollment_A this, of 2 1] show ?thesis
    by (simp add: getContainerName_def)
qed

text \<open>
  C2, amended: the resolver does not catch the name conflict. Whenever \<open>createContainer\<close>
  is reached while the name is in use, the error goes to the handler's catch-all: the
  request answers 500 after the directory check and the rejected call, and registers
  nothing. Of two concurrent first accesses with the same valid token, where the first
  inspects before the second creates, the second succeeds and the first answers 500,
  leaving the state as the second left it but for those two trace entries; exactly one
  container with the deterministic name exists afterwards.
\<close>

theorem access_name_conflict:
  assumes "getEnrollmentByToken token st = Some e"
      and "getContainerName e \<notin> set (map c_name (containers st))"
      and "\<forall>c\<in>set (containers st). c_id c < next_container_id st"
  shows "(\<forall>now st'. getContainerName e \<in> set (map c_name (containers st')) \<longrightarrow>
            access_resume now e None st' =
              (ServerError,
               emit (DockerCreate (getContainerName e)) (ensureDir (workspace_of e) st'))) \<and>
         fst (docker_inspect (ByName (getContainerName e)) st) = None \<and>
         fst (access nowB token (snd (docker_inspect (ByName (getContainerName e)) st))) =
           RedirectStudent (getContainerName e) (er_course_name e) \<and>
         access_resume nowA e None
             (snd (access nowB token (snd (docker_inspect (ByName (getContainerName e)) st)))) =
           (ServerError,
            emit (DockerCreate (getContainerName e))
              (ensureDir (workspace_of e)
                 (snd (access nowB token
                         (snd (docker_inspect (ByName (getContainerName e)) st)))))) \<and>
         length (filter (\<lambda>c. c_name c = getContainerName e)
                   (containers (snd (access nowB token
                      (snd (docker_inspect (ByName (getContainerName e)) st)))))) = 1"
  using access_race [OF assms, of nowB nowA] access_resume_conflict [of e] by blast

theorem access_name_conflict_witness:
  "fst (access 2 ''tok-A'' (snd (docker_inspect (ByName ''lms-3-7'') example))) =
     RedirectStudent ''lms-3-7'' ''CS101'' \<and>
   fst (access_resume 1
          \<lparr>er_id = 1, er_student_id = 7, er_course_id = 3, er_course_name = ''CS101'',
           er_environment_image = None\<rparr>
          None
          (snd (access 2 ''tok-A'' (snd (docker_inspect (ByName ''lms-3-7'') example))))) =
     ServerError \<and>
   length (filter (\<lambda>c. c_name c = ''lms-3-7'')
             (containers (snd (access 2 ''tok-A''
                (snd (docker_inspect (ByName ''lms-3-7'') example)))))) = 1"
proof -
  have "getContainerName
          \<lparr>er_id = 1, er_student_id = 7, er_course_id = 3, er_course_name = ''CS101'',
           er_environment_image = None\<rparr> \<notin> set (map c_name (containers example))"
       "\<forall>c\<in>set (containers example). c_id c < next_container_id example"
    by (simp_all add: example_def)
  from access_name_conflict [OF example_enrollment_A this, of 2 1] show ?thesis
    by (simp add: getContainerName_def)
qed

lemma mark_completed_simps [simp]:
  "es_id (mark_completed now ids s) = es_id s"
  "es_assignment_id (mark_completed now ids s) = es_assignment_id s"
  "es_student_id (mark_completed now ids s) = es_student_id s"
  "es_container_id (mark_completed now ids s) = es_container_id s"
  "es_status (mark_completed now ids s) = (if es_id s \<in> ids then Completed else es_status s)"
  by (simp_all add: mark_completed_def)

lemma mark_completed_twice [simp]:
  "mark_completed now A (mark_completed now B s) = mark_completed now (A \<union> B) s"
  by (simp add: mark_completed_def)

lemma mark_completed_empty [simp]: "mark_completed now {} s = s"
  by (simp add: mark_completed_def)

lemma stop_and_remove_frame [simp]:
  "students (stop_and_remove c st) = students st"
  "courses (stop_and_remove c st) = courses st"
  "enrollments (stop_and_remove c st) = enrollments st"
  "assignments (stop_and_remove c st) = assignments st"
  "exam_sessions (stop_and_remove c st) = exam_sessions st"
  "exam_sessions_seq (stop_and_remove c st) = exam_sessions_seq st"
  "next_container_id (stop_and_remove c st) = next_container_id st"
  "sessions (stop_and_remove c st) = sessions st"
  by (simp_all add: stop_and_remove_def docker_stop_def docker_remove_def Let_def
        split: option.splits)

lemma terminate_frame [simp]:
  "students (terminate now s st) = students st"
  "courses (terminate now s st) = courses st"
  "enrollments (terminate now s st) = enrollments st"
  "assignments (terminate now s st) = assignments st"
  "exam_sessions_seq (terminate now s st) = exam_sessions_seq st"
  "next_container_id (terminate now s st) = next_container_id st"
  "containers (terminate now s st) = containers (stop_and_remove (es_container_id s) st)"
  "trace (terminate now s st) =
     trace (stop_and_remove (es_container_id s) st) @
     [DbEndExamSession (es_id s),
      SessionsDelete (exam_container_name (es_assignment_id s) (es_student_id s))]"
  by (simp_all add: terminate_def)

lemma exam_sessions_terminate [simp]:
  "exam_sessions (terminate now s st) = map (mark_completed now {es_id s}) (exam_sessions st)"
  by (simp add: terminate_def mark_completed_def)

lemma expired_ids_simps [simp]:
  "expired_ids now [] = {}"
  "expired_ids now (row # rows) =
     (if expired now row then insert (es_id (fst row)) (expired_ids now rows)
      else expired_ids now rows)"
  by (simp_all add: expired_ids_def)

lemma sweeper_loop_frame [simp]:
  "students (sweeper_loop now rows st) = students st"
  "courses (sweeper_loop now rows st) = courses st"
  "enrollments (sweeper_loop now rows st) = enrollments st"
  "assignments (sweeper_loop now rows st) = assignments st"
  "exam_sessions_seq (sweeper_loop now rows st) = exam_sessions_seq st"
  "next_container_id (sweeper_loop now rows st) = next_container_id st"
  by (induction rows arbitrary: st; simp)+

lemma exam_sessions_sweeper_loop:
  "exam_sessions (sweeper_loop now rows st) =
     map (mark_completed now (expired_ids now rows)) (exam_sessions st)"
proof (induction rows arbitrary: st)
  case Nil
  then show ?case by simp
next
  case (Cons row rows)
  then show ?case by (simp add: Un_commute insert_commute)
qed

lemma check_expired_loop_eq:
  "check_expired_loop now rows n st =
     (n + length (filter (expired now) rows), sweeper_loop now rows st)"
  by (induction rows arbitrary: n st) simp_all

lemma check_expired_eq:
  "check_expired now st =
     (Checked (length (filter (expired now) (getActiveExamSessions st)))
        (length (getActiveExamSessions st)),
      sweeper_tick now st)"
  by (simp add: check_expired_def check_expired_loop_eq sweeper_tick_def)

lemma sweeper_loop_none:
  "filter (expired now) rows = [] \<Longrightarrow> sweeper_loop now rows st = st"
  by (induction rows) (auto split: if_splits)

lemma set_map_filter: "set (List.map_filter f xs) = {y. \<exists>x\<in>set xs. f x = Some y}"
  by (induction xs) (auto simp: List.map_filter_simps split: option.splits)

lemma active_row_cong:
  "assignments st' = assignments st \<Longrightarrow> students st' = students st \<Longrightarrow>
   active_row st' s = active_row st s"
  by (simp add: active_row_def cong: option.case_cong)

lemma active_row_fst: "active_row st s = Some row \<Longrightarrow> fst row = s \<and> es_status s = Active"
  by (auto simp: active_row_def split: option.splits if_splits)

lemma active_rows_iff:
  "row \<in> set (getActiveExamSessions st) \<longleftrightarrow>
     fst row \<in> set (exam_sessions st) \<and> active_row st (fst row) = Some row"
  by (auto simp: getActiveExamSessions_def set_map_filter dest: active_row_fst)

lemma no_expired_after_sweep:
  "filter (expired now) (getActiveExamSessions (sweeper_tick now st)) = []"
proof -
  let ?st' = "sweeper_tick now st"
  let ?E = "expired_ids now (getActiveExamSessions st)"
  have xs: "exam_sessions ?st' = map (mark_completed now ?E) (exam_sessions st)"
    by (simp add: sweeper_tick_def exam_sessions_sweeper_loop)
  have same: "active_row ?st' s = active_row st s" for s
    by (rule active_row_cong) (simp_all add: sweeper_tick_def)
  have False if row: "row \<in> set (getActiveExamSessions ?st')" and ex: "expired now row" for row
  proof -
    from row have m: "fst row \<in> set (exam_sessions ?st')"
      and a: "active_row st (fst row) = Some row"
      by (simp_all add: active_rows_iff same)
    from active_row_fst [OF a] have act: "es_status (fst row) = Active"
      by simp
    from m have "fst row \<in> mark_completed now ?E ` set (exam_sessions st)"
      unfolding xs by simp
    then obtain s where s: "s \<in> set (exam_sessions st)"
      and eq: "fst row = mark_completed now ?E s"
      by (rule imageE)
    have notin: "es_id s \<notin> ?E"
    proof
      assume "es_id s \<in> ?E"
      then have "es_status (mark_completed now ?E s) = Completed" by simp
      with act eq show False by simp
    qed
    with eq have "fst row = s" by (simp add: mark_completed_def)
    with s a have "row \<in> set (getActiveExamSessions st)"
      by (simp add: active_rows_iff)
    with ex have "es_id (fst row) \<in> ?E"
      by (auto simp: expired_ids_def)
    with notin \<open>fst row = s\<close> show False by simp
  qed
  then show ?thesis by (auto simp: filter_empty_conv)
qed

lemma sweeper_tick_twice: "sweeper_tick now (sweeper_tick now st) = sweeper_tick now st"
proof -
  have "sweeper_tick now (sweeper_tick now st) =
        sweeper_loop now (getActiveExamSessions (sweeper_tick now st)) (sweeper_tick now st)"
    by (rule sweeper_tick_def)
  also have "\<dots> = sweeper_tick now st"
    by (rule sweeper_loop_none) (rule no_expired_after_sweep)
  finally show ?thesis .
qed

lemma refers_running [simp]: "refers r (x\<lparr>c_running := b\<rparr>) = refers r x"
  by (simp add: refers_def split: cref.splits)

lemma find_map_running:
  "find (refers r) cs = Some k \<Longrightarrow>
   find (refers r) (map (\<lambda>x. if c_id x = c_id k then x\<lparr>c_running := False\<rparr> else x) cs) =
     Some (k\<lparr>c_running := False\<rparr>)"
  by (induction cs) (auto split: if_splits)

lemma filter_map_same_id:
  "filter (\<lambda>x. c_id x \<noteq> i) (map (\<lambda>x. if c_id x = i then x\<lparr>c_running := False\<rparr> else x) cs) =
   filter (\<lambda>x. c_id x \<noteq> i) cs"
  by (induction cs) auto

lemma stop_and_remove_running:
  assumes "resolve c st = Some k" and "c_running k"
  shows "containers (stop_and_remove (Some c) st) = filter (\<lambda>x. c_id x \<noteq> c_id k) (containers st) \<and>
         trace (stop_and_remove (Some c) st) = trace st @ [DockerStop c, DockerRemove c]"
  using assms find_map_running [of c "containers st" k]
  by (simp add: stop_and_remove_def docker_stop_def docker_remove_def Let_def resolve_def
        filter_map_same_id)

lemma stop_and_remove_not_running:
  assumes "resolve c st = None \<or> (\<exists>k. resolve c st = Some k \<and> \<not> c_running k)"
  shows "containers (stop_and_remove (Some c) st) = containers st \<and>
         trace (stop_and_remove (Some c) st) = trace st @ [DockerStop c]"
  using assms
  by (auto simp: stop_and_remove_def docker_stop_def Let_def)

lemma stop_and_remove_None [simp]: "stop_and_remove None st = st"
  by (simp add: stop_and_remove_def)

lemma trace_stop_and_remove:
  "trace (stop_and_remove c st) = trace st @ runtime_calls c st"
proof (cases c)
  case None
  then show ?thesis by (simp add: runtime_calls_def)
next
  case (Some r)
  show ?thesis
  proof (cases "resolve r st")
    case None
    with Some stop_and_remove_not_running [of r st] show ?thesis
      by (simp add: runtime_calls_def)
  next
    case (Some k)
    with \<open>c = Some r\<close> stop_and_remove_running [of r st k]
      stop_and_remove_not_running [of r st]
    show ?thesis
      by (cases "c_running k") (simp_all add: runtime_calls_def)
  qed
qed

lemma containers_stop_and_remove:
  "containers (stop_and_remove c st) = containers st \<or>
   (\<exists>i. containers (stop_and_remove c st) = filter (\<lambda>x. c_id x \<noteq> i) (containers st))"
proof (cases c)
  case None
  then show ?thesis by simp
next
  case (Some r)
  show ?thesis
  proof (cases "resolve r st")
    case None
    with \<open>c = Some r\<close> stop_and_remove_not_running [of r st] show ?thesis by simp
  next
    case (Some k)
    with \<open>c = Some r\<close> stop_and_remove_running [of r st k]
      stop_and_remove_not_running [of r st]
    show ?thesis
      by (cases "c_running k") auto
  qed
qed

lemma runtime_calls_no_mark: "count_list (runtime_calls c st) (DbEndExamSession x) = 0"
  by (simp add: runtime_calls_def split: option.splits)

lemma count_marks_terminate:
  "count_list (trace (terminate now s st)) (DbEndExamSession x) =
     count_list (trace st) (DbEndExamSession x) + (if es_id s = x then 1 else 0)"
  by (simp add: trace_stop_and_remove runtime_calls_no_mark)

lemma count_marks_sweeper_loop:
  "count_list (trace (sweeper_loop now rows st)) (DbEndExamSession x) =
     count_list (trace st) (DbEndExamSession x) +
     length (filter (\<lambda>row. expired now row \<and> es_id (fst row) = x) rows)"
  by (induction rows arbitrary: st)
     (simp_all add: trace_stop_and_remove runtime_calls_no_mark)

lemma map_fst_active_rows:
  "map fst (getActiveExamSessions st) =
     filter (\<lambda>s. active_row st s \<noteq> None) (exam_sessions st)"
proof -
  have "map fst (List.map_filter (active_row st) xs) = filter (\<lambda>s. active_row st s \<noteq> None) xs"
    for xs
    by (induction xs) (auto simp: List.map_filter_simps dest: active_row_fst split: option.splits)
  then show ?thesis by (simp add: getActiveExamSessions_def)
qed

lemma distinct_active_ids:
  "distinct (map es_id (exam_sessions st)) \<Longrightarrow>
   distinct (map (\<lambda>row. es_id (fst row)) (getActiveExamSessions st))"
proof -
  assume "distinct (map es_id (exam_sessions st))"
  then have "distinct (map es_id (map fst (getActiveExamSessions st)))"
    unfolding map_fst_active_rows by (rule distinct_map_filter)
  then show ?thesis by (simp add: comp_def)
qed

lemma one_match:
  "distinct (map f rows) \<Longrightarrow> r \<in> set rows \<Longrightarrow> P r \<Longrightarrow>
   length (filter (\<lambda>row. P row \<and> f row = f r) rows) = 1"
proof (induction rows)
  case Nil
  then show ?case by simp
next
  case (Cons a rows)
  show ?case
  proof (cases "a = r")
    case True
    from Cons.prems(1) have "f r \<notin> f ` set rows" using True by simp
    then have "filter (\<lambda>row. P row \<and> f row = f r) rows = []"
      by (auto simp: filter_empty_conv image_iff)
    with True Cons.prems(3) show ?thesis by simp
  next
    case False
    with Cons.prems have "r \<in> set rows" "distinct (map f rows)" "f a \<noteq> f r"
      by (auto simp: image_iff)
    with Cons.IH Cons.prems(3) show ?thesis by simp
  qed
qed

lemma find_marked:
  "distinct (map es_id xs) \<Longrightarrow> s \<in> set xs \<Longrightarrow>
   find (\<lambda>x. es_id x = es_id s) (map (mark_completed now E) xs) = Some (mark_completed now E s)"
  by (induction xs) (auto simp: image_iff)

lemma find_filter_keep:
  "find P xs = Some k \<Longrightarrow> Q k \<Longrightarrow> find P (filter Q xs) = Some k"
  by (induction xs) (auto split: if_splits)

lemma gone_stop_and_remove:
  assumes "i \<notin> c_id ` set (containers st)"
  shows "i \<notin> c_id ` set (containers (stop_and_remove c st))"
  using assms containers_stop_and_remove [of c st] by auto

lemma gone_sweeper_loop:
  "i \<notin> c_id ` set (containers st) \<Longrightarrow> i \<notin> c_id ` set (containers (sweeper_loop now rows st))"
  by (induction rows arbitrary: st) (simp_all add: gone_stop_and_remove)

lemma kept_stop_and_remove:
  assumes "c_id k \<notin> c_id ` set (containers st) \<or> (resolve c st = Some k \<and> c_running k)"
  shows "c_id k \<notin> c_id ` set (containers (stop_and_remove c' st)) \<or>
         (resolve c (stop_and_remove c' st) = Some k \<and> c_running k)"
proof -
  from containers_stop_and_remove [of c' st]
  consider "containers (stop_and_remove c' st) = containers st"
    | i where "containers (stop_and_remove c' st) = filter (\<lambda>x. c_id x \<noteq> i) (containers st)"
    by auto
  then show ?thesis
  proof cases
    case 1
    with assms show ?thesis by (simp add: resolve_def)
  next
    case 2
    show ?thesis
    proof (cases "i = c_id k")
      case True
      with 2 show ?thesis by auto
    next
      case False
      from assms show ?thesis
      proof
        assume "c_id k \<notin> c_id ` set (containers st)"
        with 2 show ?thesis by auto
      next
        assume a: "resolve c st = Some k \<and> c_running k"
        with False have "find (refers c) (filter (\<lambda>x. c_id x \<noteq> i) (containers st)) = Some k"
          by (intro find_filter_keep) (simp_all add: resolve_def)
        with 2 a show ?thesis by (simp add: resolve_def)
      qed
    qed
  qed
qed

lemma removed_stop_and_remove:
  assumes "c_id k \<notin> c_id ` set (containers st) \<or> (resolve c st = Some k \<and> c_running k)"
  shows "c_id k \<notin> c_id ` set (containers (stop_and_remove (Some c) st))"
  using assms
proof
  assume "c_id k \<notin> c_id ` set (containers st)"
  then show ?thesis by (rule gone_stop_and_remove)
next
  assume "resolve c st = Some k \<and> c_running k"
  with stop_and_remove_running [of c st k] show ?thesis by auto
qed

lemma sweeper_loop_removes:
  assumes "(s, e) \<in> set rows" and "expired now (s, e)" and "es_container_id s = Some c"
      and "c_id k \<notin> c_id ` set (containers st) \<or> (resolve c st = Some k \<and> c_running k)"
  shows "c_id k \<notin> c_id ` set (containers (sweeper_loop now rows st))"
  using assms
proof (induction rows arbitrary: st)
  case Nil
  then show ?case by simp
next
  case (Cons row rows)
  show ?case
  proof (cases "row = (s, e)")
    case True
    with Cons.prems removed_stop_and_remove [OF Cons.prems(4)]
    show ?thesis by (simp add: gone_sweeper_loop)
  next
    case False
    with Cons.prems have mem: "(s, e) \<in> set rows" by simp
    show ?thesis
    proof (cases "expired now row")
      case True
      have "c_id k \<notin> c_id ` set (containers (terminate now (fst row) st)) \<or>
            (resolve c (terminate now (fst row) st) = Some k \<and> c_running k)"
        using kept_stop_and_remove [OF Cons.prems(4), of "es_container_id (fst row)"]
        by (simp add: resolve_def)
      from Cons.IH [OF mem Cons.prems(2,3) this] True show ?thesis by simp
    next
      case False
      with Cons.IH [OF mem Cons.prems(2,3,4)] show ?thesis by simp
    qed
  qed
qed

lemma sweep_marks_once:
  assumes row: "(s, end_time) \<in> set (getActiveExamSessions st)"
      and ex: "expired now (s, end_time)"
      and ids: "distinct (map es_id (exam_sessions st))"
  shows "getExamSession (es_id s) (sweeper_tick now st) =
           Some (s\<lparr>es_status := Completed, es_ended_at := Some now\<rparr>) \<and>
         count_list (trace (sweeper_tick now st)) (DbEndExamSession (es_id s)) =
           count_list (trace st) (DbEndExamSession (es_id s)) + 1"
proof -
  let ?rows = "getActiveExamSessions st"
  from row have mem: "s \<in> set (exam_sessions st)"
    by (simp add: active_rows_iff)
  from row ex have "es_id s \<in> expired_ids now ?rows"
    by (force simp: expired_ids_def)
  then have m: "mark_completed now (expired_ids now ?rows) s =
                s\<lparr>es_status := Completed, es_ended_at := Some now\<rparr>"
    by (simp add: mark_completed_def)
  from find_marked [OF ids mem, of now "expired_ids now ?rows"] m
  have 1: "getExamSession (es_id s) (sweeper_tick now st) =
           Some (s\<lparr>es_status := Completed, es_ended_at := Some now\<rparr>)"
    by (simp add: getExamSession_def sweeper_tick_def exam_sessions_sweeper_loop)
  from one_match [OF distinct_active_ids [OF ids] row, of "expired now"] ex
  have "length (filter (\<lambda>r. expired now r \<and> es_id (fst r) = es_id s) ?rows) = 1"
    by simp
  then have 2: "count_list (trace (sweeper_tick now st)) (DbEndExamSession (es_id s)) =
           count_list (trace st) (DbEndExamSession (es_id s)) + 1"
    by (simp add: sweeper_tick_def count_marks_sweeper_loop)
  from 1 2 show ?thesis by simp
qed

text \<open>
  What the expiry sweep does establish. For an active exam session whose assignment's end
  has passed, one run marks its record completed, with exactly one mark in the trace, and
  stops and removes its recorded container provided that container is running. A second
  run at the same time returns the state of the first unchanged, trace included. The
  endpoint \<open>check-expired\<close> computes the same state as the sweeper's tick, and its second
  run reports zero terminations.
\<close>

lemma sweep_settles:
  assumes "(s, end_time) \<in> set (getActiveExamSessions st)"
      and "expired now (s, end_time)"
      and "distinct (map es_id (exam_sessions st))"
  shows "getExamSession (es_id s) (sweeper_tick now st) =
           Some (s\<lparr>es_status := Completed, es_ended_at := Some now\<rparr>) \<and>
         count_list (trace (sweeper_tick now st)) (DbEndExamSession (es_id s)) =
           count_list (trace st) (DbEndExamSession (es_id s)) + 1 \<and>
         (\<forall>c k. es_container_id s = Some c \<and> resolve c st = Some k \<and> c_running k \<longrightarrow>
            c_id k \<notin> c_id ` set (containers (sweeper_tick now st))) \<and>
         sweeper_tick now (sweeper_tick now st) = sweeper_tick now st \<and>
         snd (check_expired now st) = sweeper_tick now st \<and>
         check_expired now (snd (check_expired now st)) =
           (Checked 0 (length (getActiveExamSessions (sweeper_tick now st))),
            snd (check_expired now st))"
proof -
  have rm: "c_id k \<notin> c_id ` set (containers (sweeper_tick now st))"
    if "es_container_id s = Some c" "resolve c st = Some k" "c_running k" for c k
    unfolding sweeper_tick_def
    by (rule sweeper_loop_removes [OF assms(1,2) that(1)]) (simp add: that)
  have again: "check_expired now (sweeper_tick now st) =
           (Checked 0 (length (getActiveExamSessions (sweeper_tick now st))),
            sweeper_tick now st)"
    by (simp add: check_expired_eq no_expired_after_sweep sweeper_tick_twice)
  from sweep_marks_once [OF assms] rm again show ?thesis
    by (simp add: sweeper_tick_twice check_expired_eq)
qed

lemma example_active_rows:
  "getActiveExamSessions example_active =
     [(\<lparr>es_id = 1, es_assignment_id = 9, es_student_id = 4, es_container_id = Some (ById 0),
        es_work_volume_path = Some [''exams'', ''9'', ''4''], es_status = Active,
        es_started_at = Some 120, es_ended_at = None\<rparr>, Some 200),
      (\<lparr>es_id = 2, es_assignment_id = 10, es_student_id = 7, es_container_id = Some (ById 1),
        es_work_volume_path = Some [''exams'', ''10'', ''7''], es_status = Active,
        es_started_at = Some 130, es_ended_at = None\<rparr>, None)]"
  by (simp add: getActiveExamSessions_def List.map_filter_simps active_row_def
        example_active_def example_def)

lemma example_stopped_rows [simp]:
  "getActiveExamSessions example_stopped = getActiveExamSessions example_active"
  "exam_sessions example_stopped = exam_sessions example_active"
  "trace example_stopped = []"
  by (simp_all add: getActiveExamSessions_def active_row_def example_stopped_def
        example_active_def example_def cong: option.case_cong)

lemma example_stopped_container_0:
  "resolve (ById 0) example_stopped =
     Some \<lparr>c_id = 0, c_name = ''exam-9-4'', c_image = ''exam-desktop-vscode-python'',
           c_running = False\<rparr>"
  by (simp add: resolve_def refers_def example_stopped_def)

lemma example_stopped_terminate_1:
  "trace (stop_and_remove (Some (ById 0)) example_stopped) = [DockerStop (ById 0)] \<and>
   containers (stop_and_remove (Some (ById 0)) example_stopped) = containers example_stopped"
  using stop_and_remove_not_running [of "ById 0" example_stopped]
  by (simp add: example_stopped_container_0)

lemma example_stopped_sweep:
  "trace (sweeper_tick 260 example_stopped) =
     [DockerStop (ById 0), DbEndExamSession 1, SessionsDelete ''exam-9-4''] \<and>
   containers (sweeper_tick 260 example_stopped) = containers example_stopped"
  using example_stopped_terminate_1
  by (simp add: sweeper_tick_def example_active_rows expired_def ended_before_def
        exam_container_name_def)

text \<open>
  C5 fails on the code at this input. Session 1 is active and its exam ended at 200. The
  sweep at 260 calls \<open>stop\<close> on its container, which throws because the container is
  already stopped; the \<open>catch\<close> of the shared \<open>try\<close> block then skips \<open>remove\<close>. The
  record is marked completed and a second run is idle, as the claim says, but the first
  run has not removed the container: it is still there, stopped.
\<close>

theorem sweep_leaves_stopped_container:
  "getActiveExamSessions example_stopped =
     [(\<lparr>es_id = 1, es_assignment_id = 9, es_student_id = 4, es_container_id = Some (ById 0),
        es_work_volume_path = Some [''exams'', ''9'', ''4''], es_status = Active,
        es_started_at = Some 120, es_ended_at = None\<rparr>, Some 200),
      (\<lparr>es_id = 2, es_assignment_id = 10, es_student_id = 7, es_container_id = Some (ById 1),
        es_work_volume_path = Some [''exams'', ''10'', ''7''], es_status = Active,
        es_started_at = Some 130, es_ended_at = None\<rparr>, None)] \<and>
   trace (sweeper_tick 260 example_stopped) =
     [DockerStop (ById 0), DbEndExamSession 1, SessionsDelete ''exam-9-4''] \<and>
   containers (sweeper_tick 260 example_stopped) = containers example_stopped \<and>
   resolve (ById 0) (sweeper_tick 260 example_stopped) =
     Some \<lparr>c_id = 0, c_name = ''exam-9-4'', c_image = ''exam-desktop-vscode-python'',
           c_running = False\<rparr> \<and>
   getExamSession 1 (sweeper_tick 260 example_stopped) =
     Some \<lparr>es_id = 1, es_assignment_id = 9, es_student_id = 4, es_container_id = Some (ById 0),
        es_work_volume_path = Some [''exams'', ''9'', ''4''], es_status = Completed,
        es_started_at = Some 120, es_ended_at = Some 260\<rparr> \<and>
   sweeper_tick 260 (sweeper_tick 260 example_stopped) = sweeper_tick 260 example_stopped"
proof -
  from example_stopped_sweep
  have t: "trace (sweeper_tick 260 example_stopped) =
     [DockerStop (ById 0), DbEndExamSession 1, SessionsDelete ''exam-9-4'']"
    and c: "containers (sweeper_tick 260 example_stopped) = containers example_stopped"
    by simp_all
  from c have r: "resolve (ById 0) (sweeper_tick 260 example_stopped) =
     Some \<lparr>c_id = 0, c_name = ''exam-9-4'', c_image = ''exam-desktop-vscode-python'',
           c_running = False\<rparr>"
    using example_stopped_container_0 by (simp add: resolve_def)
  have g: "getExamSession 1 (sweeper_tick 260 example_stopped) =
     Some \<lparr>es_id = 1, es_assignment_id = 9, es_student_id = 4, es_container_id = Some (ById 0),
        es_work_volume_path = Some [''exams'', ''9'', ''4''], es_status = Completed,
        es_started_at = Some 120, es_ended_at = Some 260\<rparr>"
  proof -
    have "expired_ids 260 (getActiveExamSessions example_active) = {1}"
      by (simp add: example_active_rows expired_def ended_before_def)
    then have "exam_sessions (sweeper_tick 260 example_stopped) =
        map (mark_completed 260 {1}) (exam_sessions example_active)"
      by (simp add: sweeper_tick_def exam_sessions_sweeper_loop)
    then show ?thesis
      by (simp add: getExamSession_def mark_completed_def example_active_def example_def)
  qed
  from t c r g show ?thesis
    by (simp add: example_active_rows sweeper_tick_twice)
qed

text \<open>
  What one termination does establish. Its trace is the runtime calls for the recorded
  container id, then the mark of the record, then the removal from the map, and no
  runtime call follows the mark. When the recorded container is running, the calls are
  \<open>stop\<close> and \<open>remove\<close> and the container is gone before the record is marked.
\<close>

lemma terminate_trace:
  "trace (terminate now s st) =
     trace st @ runtime_calls (es_container_id s) st @
     [DbEndExamSession (es_id s),
      SessionsDelete (exam_container_name (es_assignment_id s) (es_student_id s))]"
  by (simp add: trace_stop_and_remove)

lemma terminate_running:
  assumes "es_container_id s = Some c" and "resolve c st = Some k" and "c_running k"
  shows "trace (terminate now s st) =
           trace st @
           [DockerStop c, DockerRemove c, DbEndExamSession (es_id s),
            SessionsDelete (exam_container_name (es_assignment_id s) (es_student_id s))] \<and>
         containers (terminate now s st) = filter (\<lambda>x. c_id x \<noteq> c_id k) (containers st)"
  using assms stop_and_remove_running [OF assms(2,3)] by simp

lemma example_stopped_session_1:
  "getExamSession 1 example_stopped =
     Some \<lparr>es_id = 1, es_assignment_id = 9, es_student_id = 4, es_container_id = Some (ById 0),
        es_work_volume_path = Some [''exams'', ''9'', ''4''], es_status = Active,
        es_started_at = Some 120, es_ended_at = None\<rparr>"
  by (simp add: getExamSession_def example_active_def example_def)

text \<open>
  C6 fails on the code at this input, by the defect that makes C5 fail. The recorded
  container of session 1 is present but stopped. The operator's end endpoint and the
  check-expired endpoint both call \<open>stop\<close>, which throws, skip \<open>remove\<close> in the shared
  \<open>try\<close> block, and mark the record completed: no \<open>remove\<close> call is issued before the
  mark, or at all, and the container outlives the completed record.
\<close>

theorem termination_marks_without_remove:
  "trace (snd (end_exam_session 260 1 example_stopped)) =
     [DockerStop (ById 0), DbEndExamSession 1, SessionsDelete ''exam-9-4''] \<and>
   trace (snd (check_expired 260 example_stopped)) =
     [DockerStop (ById 0), DbEndExamSession 1, SessionsDelete ''exam-9-4''] \<and>
   DockerRemove (ById 0) \<notin> set (trace (snd (end_exam_session 260 1 example_stopped))) \<and>
   resolve (ById 0) (snd (end_exam_session 260 1 example_stopped)) =
     Some \<lparr>c_id = 0, c_name = ''exam-9-4'', c_image = ''exam-desktop-vscode-python'',
           c_running = False\<rparr> \<and>
   getExamSession 1 (snd (end_exam_session 260 1 example_stopped)) =
     Some \<lparr>es_id = 1, es_assignment_id = 9, es_student_id = 4, es_container_id = Some (ById 0),
        es_work_volume_path = Some [''exams'', ''9'', ''4''], es_status = Completed,
        es_started_at = Some 120, es_ended_at = Some 260\<rparr>"
proof -
  let ?s = "\<lparr>es_id = 1, es_assignment_id = 9, es_student_id = 4, es_container_id = Some (ById 0),
        es_work_volume_path = Some [''exams'', ''9'', ''4''], es_status = Active,
        es_started_at = Some 120, es_ended_at = None\<rparr>"
  have e: "snd (end_exam_session 260 1 example_stopped) = terminate 260 ?s example_stopped"
    using example_stopped_session_1 by (simp add: end_exam_session_def)
  have t: "trace (terminate 260 ?s example_stopped) =
     [DockerStop (ById 0), DbEndExamSession 1, SessionsDelete ''exam-9-4'']"
    using example_stopped_terminate_1 by (simp add: exam_container_name_def)
  have c: "containers (terminate 260 ?s example_stopped) = containers example_stopped"
    using example_stopped_terminate_1 by simp
  from c have r: "resolve (ById 0) (terminate 260 ?s example_stopped) =
     Some \<lparr>c_id = 0, c_name = ''exam-9-4'', c_image = ''exam-desktop-vscode-python'',
           c_running = False\<rparr>"
    using example_stopped_container_0 by (simp add: resolve_def)
  have g: "getExamSession 1 (terminate 260 ?s example_stopped) =
     Some \<lparr>es_id = 1, es_assignment_id = 9, es_student_id = 4, es_container_id = Some (ById 0),
        es_work_volume_path = Some [''exams'', ''9'', ''4''], es_status = Completed,
        es_started_at = Some 120, es_ended_at = Some 260\<rparr>"
    by (simp add: getExamSession_def mark_completed_def example_active_def example_def)
  have x: "trace (snd (check_expired 260 example_stopped)) =
     [DockerStop (ById 0), DbEndExamSession 1, SessionsDelete ''exam-9-4'']"
    using example_stopped_sweep by (simp add: check_expired_eq)
  from e t r g x show ?thesis by simp
qed

text \<open>
  The terminations act on the container id recorded in the session and on nothing else.
  An exam access that finds a container of the session's name already running attaches
  to it without recording an id; the sweep after the end of the exam then marks that
  session completed with no runtime call, and the container keeps running.
\<close>

lemma sweep_skips_unrecorded_container:
  "fst (exam_access 150 9 ''tok-B'' example_leftover) =
     RedirectExam ''exam-9-4'' ''Midterm'' (Some 200) \<and>
   map es_container_id (exam_sessions (snd (exam_access 150 9 ''tok-B'' example_leftover))) =
     [None] \<and>
   trace (sweeper_tick 260 (snd (exam_access 150 9 ''tok-B'' example_leftover))) =
     trace (snd (exam_access 150 9 ''tok-B'' example_leftover)) @
     [DbEndExamSession 1, SessionsDelete ''exam-9-4''] \<and>
   containers (sweeper_tick 260 (snd (exam_access 150 9 ''tok-B'' example_leftover))) =
     containers example_leftover"
proof -
  let ?e = "\<lparr>er_id = 2, er_student_id = 4, er_course_id = 3, er_course_name = ''CS101'',
           er_environment_image = None\<rparr>"
  let ?x = "\<lparr>xr_course_id = 3, xr_title = ''Midterm'', xr_folder_name = ''midterm'',
           xr_start_time = Some 100, xr_end_time = Some 200, xr_course_name = ''CS101'',
           xr_environment_image = None\<rparr>"
  let ?s = "\<lparr>es_id = 1, es_assignment_id = 9, es_student_id = 4, es_container_id = None,
        es_work_volume_path = Some [''exams'', ''9'', ''4''], es_status = Active,
        es_started_at = Some 150, es_ended_at = None\<rparr>"
  let ?st = "snd (exam_access 150 9 ''tok-B'' example_leftover)"
  have en: "getEnrollmentByToken ''tok-B'' example_leftover = Some ?e"
    by (simp add: getEnrollmentByToken_def example_leftover_def example_def)
  have ex: "getExamAssignment 9 example_leftover = Some ?x"
    by (simp add: getExamAssignment_def example_leftover_def example_def)
  have a: "exam_access 150 9 ''tok-B'' example_leftover = exam_enter 150 9 ?e ?x example_leftover"
    by (simp add: exam_access_def en ex starts_later_def ended_before_def)
  have r: "fst (exam_enter 150 9 ?e ?x example_leftover) =
             RedirectExam ''exam-9-4'' ''Midterm'' (Some 200) \<and>
           exam_sessions (snd (exam_enter 150 9 ?e ?x example_leftover)) = [?s] \<and>
           containers (snd (exam_enter 150 9 ?e ?x example_leftover)) =
             containers example_leftover \<and>
           assignments (snd (exam_enter 150 9 ?e ?x example_leftover)) =
             assignments example \<and>
           students (snd (exam_enter 150 9 ?e ?x example_leftover)) = students example"
    by (simp add: exam_enter_def getExamSessionByStudentAndAssignment_def
          createExamSession_def Let_def docker_inspect_def resolve_def refers_def
          exam_resume_def exam_container_name_def exam_work_path_def getExamSession_def
          example_leftover_def example_def)
  from r a have rows: "getActiveExamSessions ?st = [(?s, Some 200)]"
    by (simp add: getActiveExamSessions_def List.map_filter_simps active_row_def example_def)
  from rows have t: "trace (sweeper_tick 260 ?st) =
      trace ?st @ [DbEndExamSession 1, SessionsDelete ''exam-9-4'']"
    by (simp add: sweeper_tick_def expired_def ended_before_def exam_container_name_def)
  from rows r a have c: "containers (sweeper_tick 260 ?st) = containers example_leftover"
    by (simp add: sweeper_tick_def expired_def ended_before_def)
  from r a t c show ?thesis by simp
qed

lemma find_by_id:
  "distinct (map es_id xs) \<Longrightarrow> s \<in> set xs \<Longrightarrow> find (\<lambda>x. es_id x = es_id s) xs = Some s"
  by (rule find_distinct_key)

lemma not_expired_without_end:
  assumes ids: "distinct (map es_id (exam_sessions st))"
      and mem: "s \<in> set (exam_sessions st)"
      and as: "find (\<lambda>a. a_id a = es_assignment_id s) (assignments st) = Some a"
      and noend: "a_end_time a = None"
  shows "es_id s \<notin> expired_ids now (getActiveExamSessions st)"
proof
  assume "es_id s \<in> expired_ids now (getActiveExamSessions st)"
  then obtain row where row: "row \<in> set (getActiveExamSessions st)"
    and ex: "expired now row" and id: "es_id (fst row) = es_id s"
    by (auto simp: expired_ids_def)
  from row have m: "fst row \<in> set (exam_sessions st)"
    and a: "active_row st (fst row) = Some row"
    by (simp_all add: active_rows_iff)
  from ids have "inj_on es_id (set (exam_sessions st))"
    by (simp add: distinct_map)
  with m mem id have "fst row = s"
    by (simp add: inj_on_def)
  with a as noend have "row = (s, None)"
    by (auto simp: active_row_def split: option.splits if_splits)
  then have "snd row = None" by simp
  with ex show False
    by (simp add: expired_def ended_before_def)
qed

lemma sweeper_tick_keeps:
  assumes "distinct (map es_id (exam_sessions st))"
      and "s \<in> set (exam_sessions st)"
      and "find (\<lambda>a. a_id a = es_assignment_id s) (assignments st) = Some a"
      and "a_end_time a = None"
  shows "s \<in> set (exam_sessions (sweeper_tick now st))"
proof -
  let ?E = "expired_ids now (getActiveExamSessions st)"
  from not_expired_without_end [OF assms] have "mark_completed now ?E s = s"
    by (simp add: mark_completed_def)
  with assms(2) have "s \<in> mark_completed now ?E ` set (exam_sessions st)"
    by (metis imageI)
  then show ?thesis
    by (simp add: sweeper_tick_def exam_sessions_sweeper_loop)
qed

lemma sweeper_tick_ids:
  "map es_id (exam_sessions (sweeper_tick now st)) = map es_id (exam_sessions st)"
  by (simp add: sweeper_tick_def exam_sessions_sweeper_loop comp_def)

lemma sweeper_tick_assignments [simp]:
  "assignments (sweeper_tick now st) = assignments st"
  by (simp add: sweeper_tick_def)

lemma sweeper_ticks_keep:
  assumes "distinct (map es_id (exam_sessions st))"
      and "s \<in> set (exam_sessions st)"
      and "find (\<lambda>a. a_id a = es_assignment_id s) (assignments st) = Some a"
      and "a_end_time a = None"
  shows "s \<in> set (exam_sessions (fold sweeper_tick ticks st))"
  using assms
proof (induction ticks arbitrary: st)
  case Nil
  then show ?case by simp
next
  case (Cons t ticks)
  have "s \<in> set (exam_sessions (fold sweeper_tick ticks (sweeper_tick t st)))"
  proof (rule Cons.IH)
    show "distinct (map es_id (exam_sessions (sweeper_tick t st)))"
      using Cons.prems(1) by (simp add: sweeper_tick_ids)
    show "s \<in> set (exam_sessions (sweeper_tick t st))"
      using Cons.prems by (rule sweeper_tick_keeps)
    show "find (\<lambda>a. a_id a = es_assignment_id s) (assignments (sweeper_tick t st)) = Some a"
      using Cons.prems(3) by simp
    show "a_end_time a = None" by (rule Cons.prems(4))
  qed
  then show ?case by simp
qed

lemma end_exam_session_marks:
  assumes "distinct (map es_id (exam_sessions st))" and "s \<in> set (exam_sessions st)"
  shows "getExamSession (es_id s) (snd (end_exam_session now (es_id s) st)) =
           Some (s\<lparr>es_status := Completed, es_ended_at := Some now\<rparr>)"
proof -
  from find_by_id [OF assms] have g: "getExamSession (es_id s) st = Some s"
    by (simp add: getExamSession_def)
  from find_marked [OF assms, of now "{es_id s}"] g show ?thesis
    by (simp add: end_exam_session_def getExamSession_def mark_completed_def)
qed

text \<open>
  C10: for an exam whose end is null, exam access never answers ended; for one whose
  start is null, it never answers not-started. An active exam session of an assignment
  whose end is null is left as it is by every sequence of expiry sweeps, at whatever
  times they run, through the sweeper's tick or the check-expired endpoint, which
  computes the same state; the operator's end endpoint marks it completed.
\<close>

theorem null_window_never_closes:
  "(getExamAssignment assignmentId st = Some exam \<and> xr_end_time exam = None \<longrightarrow>
      fst (exam_access now assignmentId token st) \<noteq> Ended) \<and>
   (getExamAssignment assignmentId st = Some exam \<and> xr_start_time exam = None \<longrightarrow>
      (\<forall>t. fst (exam_access now assignmentId token st) \<noteq> NotStarted t)) \<and>
   (distinct (map es_id (exam_sessions st)) \<and> s \<in> set (exam_sessions st) \<and>
    es_status s = Active \<and>
    find (\<lambda>a. a_id a = es_assignment_id s) (assignments st) = Some a \<and>
    a_end_time a = None \<longrightarrow>
      (\<forall>ticks. s \<in> set (exam_sessions (fold sweeper_tick ticks st))) \<and>
      snd (check_expired now st) = sweeper_tick now st \<and>
      getExamSession (es_id s) (snd (end_exam_session now (es_id s) st)) =
        Some (s\<lparr>es_status := Completed, es_ended_at := Some now\<rparr>))"
  using exam_open_ended [of assignmentId st exam now token]
    sweeper_ticks_keep [of st s a] end_exam_session_marks [of st s now]
  by (simp add: check_expired_eq)

lemma example_active_exam_10:
  "getExamAssignment 10 example_active =
     Some \<lparr>xr_course_id = 3, xr_title = ''Open'', xr_folder_name = ''open'',
           xr_start_time = None, xr_end_time = None, xr_course_name = ''CS101'',
           xr_environment_image = None\<rparr>"
  by (simp add: getExamAssignment_def example_active_def example_def)

theorem null_window_never_closes_witness:
  "fst (exam_access 100000 10 ''tok-A'' example_active) \<noteq> Ended \<and>
   fst (exam_access 0 10 ''tok-A'' example_active) \<noteq> NotStarted 5 \<and>
   \<lparr>es_id = 2, es_assignment_id = 10, es_student_id = 7, es_container_id = Some (ById 1),
    es_work_volume_path = Some [''exams'', ''10'', ''7''], es_status = Active,
    es_started_at = Some 130, es_ended_at = None\<rparr>
     \<in> set (exam_sessions (fold sweeper_tick [260, 100000] example_active))"
proof -
  let ?s = "\<lparr>es_id = 2, es_assignment_id = 10, es_student_id = 7,
    es_container_id = Some (ById 1),
    es_work_volume_path = Some [''exams'', ''10'', ''7''], es_status = Active,
    es_started_at = Some 130, es_ended_at = None\<rparr>"
  let ?a = "\<lparr>a_id = 10, a_course_id = 3, a_title = ''Open'', a_folder_name = ''open'',
          a_is_exam = True, a_start_time = None, a_end_time = None, a_created_at = 20\<rparr>"
  let ?x = "\<lparr>xr_course_id = 3, xr_title = ''Open'', xr_folder_name = ''open'',
           xr_start_time = None, xr_end_time = None, xr_course_name = ''CS101'',
           xr_environment_image = None\<rparr>"
  have h: "distinct (map es_id (exam_sessions example_active)) \<and>
      ?s \<in> set (exam_sessions example_active) \<and> es_status ?s = Active \<and>
      find (\<lambda>a. a_id a = es_assignment_id ?s) (assignments example_active) = Some ?a \<and>
      a_end_time ?a = None"
    by (simp add: example_active_def example_def)
  have x: "xr_end_time ?x = None" "xr_start_time ?x = None" by simp_all
  from null_window_never_closes [of 10 example_active ?x 100000 "''tok-A''" ?s ?a]
    example_active_exam_10 x
  have 1: "fst (exam_access 100000 10 ''tok-A'' example_active) \<noteq> Ended"
    by blast
  from null_window_never_closes [of 10 example_active ?x 0 "''tok-A''" ?s ?a]
    example_active_exam_10 x
  have 2: "fst (exam_access 0 10 ''tok-A'' example_active) \<noteq> NotStarted 5"
    by blast
  from null_window_never_closes [of 10 example_active ?x 0 "''tok-A''" ?s ?a] h
  have 3: "?s \<in> set (exam_sessions (fold sweeper_tick [260, 100000] example_active))"
    by blast
  from 1 2 3 show ?thesis by blast
qed

lemma row_step_refl [simp]: "row_step x x"
  by (simp add: row_step_def)

lemma row_step_mark [simp]: "row_step x (mark_completed now E x)"
  by (simp add: row_step_def)

lemma rows_step_refl [simp]: "list_all2 row_step xs xs"
  by (simp add: list_all2_same)

lemma rows_step_mark [simp]: "list_all2 row_step xs (map (mark_completed now E) xs)"
  by (simp add: list_all2_map2 list_all2_same)

lemma rows_step_core:
  "map es_core ys = map es_core xs \<Longrightarrow> list_all2 row_step xs ys"
proof (induction xs arbitrary: ys)
  case Nil
  then show ?case by simp
next
  case (Cons x xs)
  then obtain y ys' where "ys = y # ys'" "es_core y = es_core x" "map es_core ys' = map es_core xs"
    by (cases ys) auto
  with Cons.IH [of ys'] es_core_eqD [of y x] show ?case
    by (simp add: row_step_def)
qed

lemma rows_step_pairs:
  "list_all2 row_step xs ys \<Longrightarrow>
   map (\<lambda>s. (es_assignment_id s, es_student_id s)) ys =
   map (\<lambda>s. (es_assignment_id s, es_student_id s)) xs"
  by (induction rule: list_all2_induct) (simp_all add: row_step_def)

lemma rows_step_open_subset:
  "list_all2 row_step xs ys \<Longrightarrow>
   set (map (\<lambda>s. (es_assignment_id s, es_student_id s))
          (filter (\<lambda>s. es_status s \<noteq> Completed) ys)) \<subseteq>
   set (map (\<lambda>s. (es_assignment_id s, es_student_id s))
          (filter (\<lambda>s. es_status s \<noteq> Completed) xs))"
  by (induction rule: list_all2_induct) (auto simp: row_step_def)

lemma rows_step_open_distinct:
  "list_all2 row_step xs ys \<Longrightarrow>
   distinct (map (\<lambda>s. (es_assignment_id s, es_student_id s))
               (filter (\<lambda>s. es_status s \<noteq> Completed) xs)) \<Longrightarrow>
   distinct (map (\<lambda>s. (es_assignment_id s, es_student_id s))
               (filter (\<lambda>s. es_status s \<noteq> Completed) ys))"
proof (induction rule: list_all2_induct)
  case Nil
  then show ?case by simp
next
  case (Cons x xs y ys)
  from rows_step_open_subset [OF Cons.hyps(2)] Cons.hyps(1) Cons.prems Cons.IH
  show ?case
    by (auto simp: row_step_def split: if_splits)
qed

lemma rows_step_filter_pair:
  "list_all2 row_step xs ys \<Longrightarrow>
   length (filter (\<lambda>s. es_assignment_id s = a \<and> es_student_id s = u) ys) =
   length (filter (\<lambda>s. es_assignment_id s = a \<and> es_student_id s = u) xs)"
  by (induction rule: list_all2_induct) (auto simp: row_step_def)

lemma access_rows [simp]:
  "exam_sessions (snd (access now token st)) = exam_sessions st"
proof -
  have c: "exam_sessions (snd (access_create e st)) = exam_sessions st" for e st
    by (auto simp: access_create_def split: prod.splits option.splits dest!: pair_snd_eq)
  have s: "exam_sessions (snd (access_start e k st)) = exam_sessions st" for e k st
    by (auto simp: access_start_def split: prod.splits bool.splits dest!: pair_snd_eq)
  have r: "exam_sessions (snd (access_resume now e info st)) = exam_sessions st" for e info st
    using c [of e st] s [of e _ st] s [of e _ "snd (access_create e st)"]
    by (auto simp: access_resume_def split: prod.splits option.splits bool.splits if_splits
             dest!: pair_snd_eq)
  show ?thesis
    using r by (auto simp: access_def split: option.splits prod.splits dest!: pair_snd_eq)
qed

lemma terminate_rows: "list_all2 row_step (exam_sessions st) (exam_sessions (terminate now s st))"
  by simp

lemma sweeper_tick_rows:
  "list_all2 row_step (exam_sessions st) (exam_sessions (sweeper_tick now st))"
  by (simp add: sweeper_tick_def exam_sessions_sweeper_loop)

lemma exam_enter_rows_found:
  assumes "getExamSessionByStudentAndAssignment (er_student_id e) aid st = Some s"
  shows "list_all2 row_step (exam_sessions st) (exam_sessions (snd (exam_enter now aid e x st)))"
proof -
  obtain r st' where eq: "exam_enter now aid e x st = (r, st')"
    by (cases "exam_enter now aid e x st") auto
  from exam_enter_found [OF eq assms] have "map es_core (exam_sessions st') = map es_core (exam_sessions st)"
    by simp
  then have "list_all2 row_step (exam_sessions st) (exam_sessions st')"
    by (rule rows_step_core)
  with eq show ?thesis by simp
qed

lemma exam_enter_rows_new:
  assumes "getExamSessionByStudentAndAssignment (er_student_id e) aid st = None"
  shows "\<exists>ys y. exam_sessions (snd (exam_enter now aid e x st)) = ys @ [y] \<and>
           list_all2 row_step (exam_sessions st) ys \<and>
           es_assignment_id y = aid \<and> es_student_id y = er_student_id e \<and>
           es_status y = Active"
proof -
  obtain r st' where eq: "exam_enter now aid e x st = (r, st')"
    by (cases "exam_enter now aid e x st") auto
  let ?new = "(Suc (fold max (map es_id (exam_sessions st)) (exam_sessions_seq st)),
               aid, er_student_id e, Active, Some now, None :: time option)"
  from exam_enter_new [OF eq assms]
  have m: "map es_core (exam_sessions st') = map es_core (exam_sessions st) @ [?new]"
    by simp
  then obtain ys y where ys: "exam_sessions st' = ys @ [y]"
    and c: "map es_core ys = map es_core (exam_sessions st)" "es_core y = ?new"
    by (cases "exam_sessions st'" rule: rev_cases) auto
  from c(2) have "es_assignment_id y = aid \<and> es_student_id y = er_student_id e \<and>
      es_status y = Active"
    by (simp add: es_core_def)
  with ys rows_step_core [OF c(1)] eq show ?thesis by simp
qed

text \<open>
  What any operation does to the table of exam sessions: it either changes rows in
  place, keeping each row's pair and keeping or completing its status, or it is an exam
  access whose lookup found no session for the pair and which appends one active row for
  that pair.
\<close>

lemma perform_rows:
  "list_all2 row_step (exam_sessions st) (exam_sessions (perform now op st)) \<or>
   (\<exists>aid token e ys y.
      op = ExamAccess aid token \<and> getEnrollmentByToken token st = Some e \<and>
      getExamSessionByStudentAndAssignment (er_student_id e) aid st = None \<and>
      exam_sessions (perform now op st) = ys @ [y] \<and>
      list_all2 row_step (exam_sessions st) ys \<and>
      es_assignment_id y = aid \<and> es_student_id y = er_student_id e \<and> es_status y = Active)"
proof (cases op)
  case (Access token)
  then show ?thesis by simp
next
  case (ExamAccess aid token)
  show ?thesis
  proof (cases "\<exists>e x. exam_access now aid token st = exam_enter now aid e x st \<and>
                  getEnrollmentByToken token st = Some e")
    case False
    then have "snd (exam_access now aid token st) = st"
      by (auto simp: exam_access_def split: option.splits if_splits)
    with ExamAccess show ?thesis by simp
  next
    case True
    then obtain e x where eq: "exam_access now aid token st = exam_enter now aid e x st"
      and en: "getEnrollmentByToken token st = Some e"
      by blast
    show ?thesis
    proof (cases "getExamSessionByStudentAndAssignment (er_student_id e) aid st")
      case None
      from exam_enter_rows_new [OF None, of now x] ExamAccess eq en None
      show ?thesis by auto
    next
      case (Some s)
      from exam_enter_rows_found [OF Some, of now x] ExamAccess eq
      show ?thesis by simp
    qed
  qed
next
  case (EndExamSession sid)
  then show ?thesis
    by (simp add: end_exam_session_def split: option.splits)
next
  case CheckExpired
  then show ?thesis
    by (simp add: check_expired_eq sweeper_tick_rows)
next
  case SweeperTick
  then show ?thesis
    by (simp add: sweeper_tick_rows)
qed

lemma pair_filter_empty:
  "filter (\<lambda>s. es_student_id s = u \<and> es_assignment_id s = a) xs = [] \<longleftrightarrow>
   (a, u) \<notin> set (map (\<lambda>s. (es_assignment_id s, es_student_id s)) xs)"
  by (auto simp: filter_empty_conv image_iff)

text \<open>
  C8: every operation of the gateway preserves the invariant that at most one exam
  session that is not completed exists per (assignment, student) pair, and also that at
  most one session of any status exists per pair. The table of exam sessions changes
  length only in an exam access whose lookup by (student, assignment) found no session,
  and then by one row; for a pair that already has a session, no operation changes the
  number of its sessions.
\<close>

theorem one_open_session_per_pair:
  "(at_most_one_open st \<longrightarrow> at_most_one_open (perform now op st)) \<and>
   (one_session_per_pair st \<longrightarrow> one_session_per_pair (perform now op st)) \<and>
   (length (exam_sessions (perform now op st)) \<noteq> length (exam_sessions st) \<longrightarrow>
      (\<exists>aid token e.
         op = ExamAccess aid token \<and> getEnrollmentByToken token st = Some e \<and>
         getExamSessionByStudentAndAssignment (er_student_id e) aid st = None \<and>
         length (exam_sessions (perform now op st)) = Suc (length (exam_sessions st)))) \<and>
   (\<forall>a u. filter (\<lambda>s. es_assignment_id s = a \<and> es_student_id s = u) (exam_sessions st) \<noteq> [] \<longrightarrow>
      length (filter (\<lambda>s. es_assignment_id s = a \<and> es_student_id s = u)
                (exam_sessions (perform now op st))) =
      length (filter (\<lambda>s. es_assignment_id s = a \<and> es_student_id s = u) (exam_sessions st)))"
proof -
  let ?k = "\<lambda>s. (es_assignment_id s, es_student_id s)"
  let ?o = "\<lambda>s. es_status s \<noteq> Completed"
  let ?xs = "exam_sessions st"
  let ?xs' = "exam_sessions (perform now op st)"
  from perform_rows [of st now op]
  consider (same) "list_all2 row_step ?xs ?xs'"
    | (new) aid token e ys y where "op = ExamAccess aid token"
        "getEnrollmentByToken token st = Some e"
        "getExamSessionByStudentAndAssignment (er_student_id e) aid st = None"
        "?xs' = ys @ [y]" "list_all2 row_step ?xs ys"
        "es_assignment_id y = aid" "es_student_id y = er_student_id e" "es_status y = Active"
    by blast
  then show ?thesis
  proof cases
    case same
    from same have len: "length ?xs' = length ?xs"
      by (simp add: list_all2_lengthD)
    from rows_step_open_distinct [OF same] rows_step_pairs [OF same] len
      rows_step_filter_pair [OF same]
    show ?thesis
      by (simp add: at_most_one_open_def one_session_per_pair_def)
  next
    case new
    from new(3) have none: "(aid, er_student_id e) \<notin> set (map ?k ?xs)"
      by (simp add: getExamSessionByStudentAndAssignment_def find_None_filter pair_filter_empty)
    have pairs: "map ?k ys = map ?k ?xs"
      by (rule rows_step_pairs [OF new(5)])
    have sub: "set (map ?k (filter ?o ys)) \<subseteq> set (map ?k (filter ?o ?xs))"
      by (rule rows_step_open_subset [OF new(5)])
    have "set (map ?k (filter ?o ?xs)) \<subseteq> set (map ?k ?xs)"
      by auto
    with sub none have fresh: "(aid, er_student_id e) \<notin> set (map ?k (filter ?o ys))"
      by blast
    have 1: "at_most_one_open (perform now op st)" if "at_most_one_open st"
      using that rows_step_open_distinct [OF new(5)] fresh new(4,6,7,8)
      by (simp add: at_most_one_open_def)
    have 2: "one_session_per_pair (perform now op st)" if "one_session_per_pair st"
      using that pairs none new(4,6,7)
      by (simp add: one_session_per_pair_def)
    have 3: "length ?xs' = Suc (length ?xs)"
      using new(4) list_all2_lengthD [OF new(5)] by simp
    have 4: "length (filter (\<lambda>s. es_assignment_id s = a \<and> es_student_id s = u) ?xs') =
             length (filter (\<lambda>s. es_assignment_id s = a \<and> es_student_id s = u) ?xs)"
      if "filter (\<lambda>s. es_assignment_id s = a \<and> es_student_id s = u) ?xs \<noteq> []" for a u
    proof -
      from that have "(a, u) \<in> set (map ?k ?xs)"
        by (auto simp: filter_empty_conv image_iff)
      with none have "\<not> (es_assignment_id y = a \<and> es_student_id y = u)"
        using new(6,7) by auto
      with new(4) rows_step_filter_pair [OF new(5), of a u] show ?thesis
        by simp
    qed
    from 1 2 3 4 new(1,2,3) show ?thesis by blast
  qed
qed

theorem one_open_session_per_pair_witness:
  "at_most_one_open example \<and>
   at_most_one_open (perform 150 (ExamAccess 9 ''tok-A'') example) \<and>
   one_session_per_pair (perform 150 (ExamAccess 9 ''tok-A'') example) \<and>
   length (exam_sessions (perform 150 (ExamAccess 9 ''tok-A'') example)) =
     Suc (length (exam_sessions example)) \<and>
   length (filter (\<lambda>s. es_assignment_id s = 9 \<and> es_student_id s = 4)
             (exam_sessions (perform 150 (ExamAccess 9 ''tok-B'') example_completed))) = 1"
proof -
  let ?e = "\<lparr>er_id = 1, er_student_id = 7, er_course_id = 3, er_course_name = ''CS101'',
           er_environment_image = None\<rparr>"
  let ?x = "\<lparr>xr_course_id = 3, xr_title = ''Midterm'', xr_folder_name = ''midterm'',
           xr_start_time = Some 100, xr_end_time = Some 200, xr_course_name = ''CS101'',
           xr_environment_image = None\<rparr>"
  have inv: "at_most_one_open example" "one_session_per_pair example"
    by (simp_all add: at_most_one_open_def one_session_per_pair_def example_def)
  have none: "getExamSessionByStudentAndAssignment (er_student_id ?e) 9 example = None"
    by (simp add: getExamSessionByStudentAndAssignment_def example_def)
  have enter: "exam_access 150 9 ''tok-A'' example = exam_enter 150 9 ?e ?x example"
    by (simp add: exam_access_def example_enrollment_A example_exam_9 starts_later_def
          ended_before_def)
  from exam_enter_rows_new [OF none, of 150 ?x] enter
  have grown: "length (exam_sessions (perform 150 (ExamAccess 9 ''tok-A'') example)) \<noteq>
      length (exam_sessions example)"
    by (auto simp: example_def)
  have has: "filter (\<lambda>s. es_assignment_id s = 9 \<and> es_student_id s = 4)
      (exam_sessions example_completed) \<noteq> []"
    "length (filter (\<lambda>s. es_assignment_id s = 9 \<and> es_student_id s = 4)
      (exam_sessions example_completed)) = 1"
    by (simp_all add: example_completed_def example_def)
  note a = one_open_session_per_pair [of example 150 "ExamAccess 9 ''tok-A''"]
  note b = one_open_session_per_pair [of example_completed 150 "ExamAccess 9 ''tok-B''"]
  from a inv have 1: "at_most_one_open (perform 150 (ExamAccess 9 ''tok-A'') example)"
    and 2: "one_session_per_pair (perform 150 (ExamAccess 9 ''tok-A'') example)"
    by blast+
  from a grown have 3: "length (exam_sessions (perform 150 (ExamAccess 9 ''tok-A'') example)) =
     Suc (length (exam_sessions example))"
    by blast
  from b has(1) have "length (filter (\<lambda>s. es_assignment_id s = 9 \<and> es_student_id s = 4)
             (exam_sessions (perform 150 (ExamAccess 9 ''tok-B'') example_completed))) =
     length (filter (\<lambda>s. es_assignment_id s = 9 \<and> es_student_id s = 4)
      (exam_sessions example_completed))"
    by blast
  with has(2) have 4: "length (filter (\<lambda>s. es_assignment_id s = 9 \<and> es_student_id s = 4)
             (exam_sessions (perform 150 (ExamAccess 9 ''tok-B'') example_completed))) = 1"
    by simp
  from inv(1) 1 2 3 4 show ?thesis by blast
qed

end
